theory Spec2Isabelle
  imports Complex_Main
begin

section \<open>A toy GAN: the notebook \<^verbatim>\<open>generate_gaussian.ipynb\<close>\<close>

text \<open>
  The notebook trains a one-layer generator against a one-layer discriminator.
  Its own code is short (two sample generators, two module classes, a set-up cell,
  \<^verbatim>\<open>train\<close> and an evaluation cell); everything else is calls into numpy and
  torch. The embedding follows the notebook line by line and models the library calls
  it makes as far as the notebook uses them:
  \<^item> an array is its shape and its elements in row-major order;
  \<^item> numbers are real numbers: the rounding of \<^verbatim>\<open>float32\<close> is not modelled;
  \<^item> a tensor is an array together with the history autograd recorded for it;
  \<^item> the random generator of numpy and the derivative computed by
    \<^verbatim>\<open>backward()\<close> are parameters of the model (the record \<open>lib\<close>);
  \<^item> a raised exception is the left summand of the result.
\<close>

subsection \<open>Arrays and errors\<close>

record ndarray =
  shape :: "nat list"
  elems :: "real list"

definition valid :: "ndarray \<Rightarrow> bool" where
  "valid a \<longleftrightarrow> length (elems a) = prod_list (shape a)"

datatype error = ValueError | RuntimeError

definition then_do :: "error + 'a \<Rightarrow> ('a \<Rightarrow> error + 'b) \<Rightarrow> error + 'b" where
  "then_do m f = (case m of Inl e \<Rightarrow> Inl e | Inr x \<Rightarrow> f x)"

subsection \<open>Autograd histories and tensors\<close>

text \<open>
  The four parameter tensors of the notebook: \<^verbatim>\<open>generator.fc.weight\<close>,
  \<^verbatim>\<open>generator.fc.bias\<close>, \<^verbatim>\<open>discriminator.fc.weight\<close> and
  \<^verbatim>\<open>discriminator.fc.bias\<close>.
\<close>

datatype pname = Gen_fc_weight | Gen_fc_bias | Disc_fc_weight | Disc_fc_bias

text \<open>
  The history (\<^verbatim>\<open>grad_fn\<close>) of a tensor: a tensor without history carries only
  its value; every operation the notebook applies has one node.
\<close>

datatype graph =
    No_grad ndarray
  | Linear_fn graph pname pname
  | Leaky_relu_fn graph
  | Sigmoid_fn graph
  | Cat_fn "graph list"
  | BCE_fn graph graph

record tensor =
  data :: ndarray
  grad_fn :: graph

text \<open>The parameters a history reaches: the leaves \<^verbatim>\<open>backward()\<close> accumulates into.\<close>

fun leaves :: "graph \<Rightarrow> pname list" where
  "leaves (No_grad a) = []"
| "leaves (Linear_fn g w b) = leaves g @ [w, b]"
| "leaves (Leaky_relu_fn g) = leaves g"
| "leaves (Sigmoid_fn g) = leaves g"
| "leaves (Cat_fn gs) = concat (map leaves gs)"
| "leaves (BCE_fn g t) = leaves g @ leaves t"

subsection \<open>The libraries' random source and derivative\<close>

text \<open>
  \<open>standard_normal\<close> and \<open>random_sample\<close> draw one number from numpy's global
  generator, whose state has type \<open>'r\<close>, and return the new state.
  \<open>autograd g P p\<close> is the derivative, with respect to parameter \<open>p\<close>, of the scalar
  with history \<open>g\<close> at the parameter values \<open>P\<close>.
\<close>

record 'r lib =
  standard_normal :: "'r \<Rightarrow> real \<times> 'r"
  random_sample :: "'r \<Rightarrow> real \<times> 'r"
  autograd :: "graph \<Rightarrow> (pname \<Rightarrow> ndarray) \<Rightarrow> pname \<Rightarrow> ndarray"

fun draws :: "('r \<Rightarrow> real \<times> 'r) \<Rightarrow> nat \<Rightarrow> 'r \<Rightarrow> real list \<times> 'r" where
  "draws f 0 r = ([], r)"
| "draws f (Suc k) r =
     (case f r of (v, r1) \<Rightarrow> (case draws f k r1 of (vs, r2) \<Rightarrow> (v # vs, r2)))"

text \<open>
  \<^verbatim>\<open>np.random.randn(d0, d1)\<close> and \<^verbatim>\<open>np.random.rand(d0, d1)\<close>: numpy raises
  \<^verbatim>\<open>ValueError\<close> for a negative dimension and returns an array of shape
  \<open>(d0, d1)\<close> otherwise, an empty one when a dimension is zero.
\<close>

definition np_random_randn :: "'r lib \<Rightarrow> int \<Rightarrow> int \<Rightarrow> 'r \<Rightarrow> error + (ndarray \<times> 'r)" where
  "np_random_randn L d0 d1 r =
     (if d0 < 0 \<or> d1 < 0 then Inl ValueError
      else (case draws (standard_normal L) (nat d0 * nat d1) r of
              (vs, r') \<Rightarrow> Inr (\<lparr>shape = [nat d0, nat d1], elems = vs\<rparr>, r')))"

definition np_random_rand :: "'r lib \<Rightarrow> int \<Rightarrow> int \<Rightarrow> 'r \<Rightarrow> error + (ndarray \<times> 'r)" where
  "np_random_rand L d0 d1 r =
     (if d0 < 0 \<or> d1 < 0 then Inl ValueError
      else (case draws (random_sample L) (nat d0 * nat d1) r of
              (vs, r') \<Rightarrow> Inr (\<lparr>shape = [nat d0, nat d1], elems = vs\<rparr>, r')))"

subsection \<open>The sample generators of the notebook\<close>

definition generate_gaussian :: "'r lib \<Rightarrow> int \<Rightarrow> int \<Rightarrow> 'r \<Rightarrow> error + (ndarray \<times> 'r)" where
  "generate_gaussian L n_samples n_dim r = np_random_randn L n_samples n_dim r"

definition generate_uniform :: "'r lib \<Rightarrow> int \<Rightarrow> int \<Rightarrow> 'r \<Rightarrow> error + (ndarray \<times> 'r)" where
  "generate_uniform L n_samples n_dim r = np_random_rand L n_samples n_dim r"

subsection \<open>Tensor operations\<close>

definition torch_tensor :: "ndarray \<Rightarrow> tensor" where
  "torch_tensor a = \<lparr>data = a, grad_fn = No_grad a\<rparr>"

definition detach :: "tensor \<Rightarrow> tensor" where
  "detach t = \<lparr>data = data t, grad_fn = No_grad (data t)\<rparr>"

text \<open>
  The result of an operation has a history when gradient mode is on and an input
  has one that reaches a parameter; otherwise it carries only its value.
\<close>

definition track :: "bool \<Rightarrow> ndarray \<Rightarrow> graph \<Rightarrow> tensor" where
  "track gm a g = \<lparr>data = a, grad_fn = (if gm \<and> leaves g \<noteq> [] then g else No_grad a)\<rparr>"

text \<open>\<^verbatim>\<open>torch.ones(size)\<close> and \<^verbatim>\<open>torch.zeros(size)\<close>.\<close>

definition torch_full :: "real \<Rightarrow> int list \<Rightarrow> error + tensor" where
  "torch_full v sz =
     (if list_ex (\<lambda>d. d < 0) sz then Inl RuntimeError
      else Inr (torch_tensor \<lparr>shape = map nat sz,
                              elems = replicate (prod_list (map nat sz)) v\<rparr>))"

definition torch_ones :: "int list \<Rightarrow> error + tensor" where
  "torch_ones sz = torch_full 1 sz"

definition torch_zeros :: "int list \<Rightarrow> error + tensor" where
  "torch_zeros sz = torch_full 0 sz"

text \<open>
  \<^verbatim>\<open>torch.concat(ts)\<close> along dimension 0: the inputs agree on every other dimension.
  (torch also skips inputs of shape \<open>[0]\<close>; the notebook has none.)
\<close>

definition torch_concat :: "bool \<Rightarrow> tensor list \<Rightarrow> error + tensor" where
  "torch_concat gm ts =
     (case ts of
        [] \<Rightarrow> Inl RuntimeError
      | t # _ \<Rightarrow>
          if list_all (\<lambda>u. shape (data u) \<noteq> [] \<and> tl (shape (data u)) = tl (shape (data t))) ts
          then Inr (track gm
                 \<lparr>shape = sum_list (map (\<lambda>u. hd (shape (data u))) ts) # tl (shape (data t)),
                  elems = concat (map (\<lambda>u. elems (data u)) ts)\<rparr>
                 (Cat_fn (map grad_fn ts)))
          else Inl RuntimeError)"

text \<open>The \<open>n\<close> rows of length \<open>k\<close> of a row-major element list.\<close>

definition rows_of :: "nat \<Rightarrow> nat \<Rightarrow> real list \<Rightarrow> real list list" where
  "rows_of n k xs = map (\<lambda>i. take k (drop (i * k) xs)) [0..<n]"

definition dot :: "real list \<Rightarrow> real list \<Rightarrow> real" where
  "dot u v = sum_list (map2 (*) u v)"

text \<open>
  \<^verbatim>\<open>F.linear(x, weight, bias)\<close>: the weight has shape \<open>[out, in]\<close>, the bias
  \<open>[out]\<close>, the last dimension of \<open>x\<close> is \<open>in\<close> and becomes \<open>out\<close>.
\<close>

definition F_linear ::
  "bool \<Rightarrow> (pname \<Rightarrow> ndarray) \<Rightarrow> tensor \<Rightarrow> pname \<Rightarrow> pname \<Rightarrow> error + tensor" where
  "F_linear gm P x w b =
     (case shape (P w) of
        [out_f, in_f] \<Rightarrow>
          if shape (data x) = [] \<or> last (shape (data x)) \<noteq> in_f \<or> shape (P b) \<noteq> [out_f]
          then Inl RuntimeError
          else
            (let lead = butlast (shape (data x));
                 W = rows_of out_f in_f (elems (P w));
                 y = concat (map (\<lambda>row. map2 (\<lambda>wr bj. dot row wr + bj) W (elems (P b)))
                                 (rows_of (prod_list lead) in_f (elems (data x))))
             in Inr (track gm \<lparr>shape = lead @ [out_f], elems = y\<rparr> (Linear_fn (grad_fn x) w b)))
      | _ \<Rightarrow> Inl RuntimeError)"

definition negative_slope :: real where
  "negative_slope = 0.01"

definition F_leaky_relu :: "bool \<Rightarrow> tensor \<Rightarrow> tensor" where
  "F_leaky_relu gm x =
     track gm \<lparr>shape = shape (data x),
               elems = map (\<lambda>v. if v > 0 then v else v * negative_slope) (elems (data x))\<rparr>
       (Leaky_relu_fn (grad_fn x))"

definition F_sigmoid :: "bool \<Rightarrow> tensor \<Rightarrow> tensor" where
  "F_sigmoid gm x =
     track gm \<lparr>shape = shape (data x),
               elems = map (\<lambda>v. 1 / (1 + exp (- v))) (elems (data x))\<rparr>
       (Sigmoid_fn (grad_fn x))"

text \<open>
  \<^verbatim>\<open>nn.BCELoss()\<close> with the default mean reduction: the logarithms are clamped at
  \<open>-100\<close>; a target of another shape is a \<^verbatim>\<open>ValueError\<close>, an input outside
  \<open>[0, 1]\<close> a \<^verbatim>\<open>RuntimeError\<close>. The result is a tensor of dimension 0.
  (For an input without elements torch gives NaN; no call of the notebook has one.)
\<close>

definition clamp_log :: "real \<Rightarrow> real" where
  "clamp_log v = (if v \<le> 0 then - 100 else max (ln v) (- 100))"

definition nn_BCELoss :: "bool \<Rightarrow> tensor \<Rightarrow> tensor \<Rightarrow> error + tensor" where
  "nn_BCELoss gm input target =
     (if shape (data input) \<noteq> shape (data target) then Inl ValueError
      else if \<not> list_all (\<lambda>v. 0 \<le> v \<and> v \<le> 1) (elems (data input)) then Inl RuntimeError
      else
        (let ls = map2 (\<lambda>x y. - (y * clamp_log x + (1 - y) * clamp_log (1 - x)))
                    (elems (data input)) (elems (data target))
         in Inr (track gm \<lparr>shape = [], elems = [sum_list ls / real (length ls)]\<rparr>
                   (BCE_fn (grad_fn input) (grad_fn target)))))"

text \<open>\<^verbatim>\<open>t.item()\<close>: the number held by a tensor of one element.\<close>

definition item :: "tensor \<Rightarrow> error + real" where
  "item t = (case elems (data t) of [v] \<Rightarrow> Inr v | _ \<Rightarrow> Inl RuntimeError)"

text \<open>
  What a Python list of the notebook can hold: a float, or the bound method
  \<^verbatim>\<open>t.item\<close> of a tensor \<open>t\<close> (an object that returns the float once called).
\<close>

datatype pyobj = is_float: Py_float real | Item_method tensor

subsection \<open>Modules, gradients and optimizers\<close>

text \<open>
  Both module classes have one \<^verbatim>\<open>nn.Linear\<close> layer \<^verbatim>\<open>fc\<close>. (The generator
  also constructs an \<^verbatim>\<open>nn.Flatten\<close> that its \<^verbatim>\<open>forward\<close> never applies.)
\<close>

record module =
  fc_weight :: pname
  fc_bias :: pname

definition parameters :: "module \<Rightarrow> pname list" where
  "parameters m = [fc_weight m, fc_bias m]"

text \<open>
  The state the notebook mutates: the value and the \<^verbatim>\<open>.grad\<close> of every parameter,
  the per-parameter state of Adam (step count, first and second moment), the state of
  numpy's generator, and torch's gradient mode.
\<close>

record 'r world =
  params :: "pname \<Rightarrow> ndarray"
  grads :: "pname \<Rightarrow> ndarray option"
  adam_state :: "pname \<Rightarrow> (nat \<times> ndarray \<times> ndarray) option"
  np_state :: 'r
  grad_enabled :: bool

definition nn_Linear :: "'r world \<Rightarrow> module \<Rightarrow> tensor \<Rightarrow> error + tensor" where
  "nn_Linear s m x = F_linear (grad_enabled s) (params s) x (fc_weight m) (fc_bias m)"

definition Generator_forward :: "'r world \<Rightarrow> module \<Rightarrow> tensor \<Rightarrow> error + tensor" where
  "Generator_forward s self x =
     then_do (nn_Linear s self x) (\<lambda>h. Inr (F_leaky_relu (grad_enabled s) h))"

definition Discriminator_forward :: "'r world \<Rightarrow> module \<Rightarrow> tensor \<Rightarrow> error + tensor" where
  "Discriminator_forward s self x =
     then_do (nn_Linear s self x) (\<lambda>h. Inr (F_sigmoid (grad_enabled s) h))"

text \<open>\<^verbatim>\<open>module.zero_grad()\<close> resets the gradient of the module's own parameters.\<close>

definition zero_grad :: "module \<Rightarrow> 'r world \<Rightarrow> 'r world" where
  "zero_grad m s = s\<lparr>grads := fold (\<lambda>p G. G(p := None)) (parameters m) (grads s)\<rparr>"

text \<open>
  \<^verbatim>\<open>loss.backward()\<close>: the loss has one element and a history; the derivative with
  respect to each parameter the history reaches is stored in its \<^verbatim>\<open>.grad\<close> when
  that is empty and added to it otherwise.
\<close>

definition nd_add :: "ndarray \<Rightarrow> ndarray \<Rightarrow> ndarray" where
  "nd_add a g = \<lparr>shape = shape a, elems = map2 (+) (elems a) (elems g)\<rparr>"

definition accumulate :: "ndarray option \<Rightarrow> ndarray \<Rightarrow> ndarray option" where
  "accumulate old g = (case old of None \<Rightarrow> Some g | Some a \<Rightarrow> Some (nd_add a g))"

definition backward :: "'r lib \<Rightarrow> tensor \<Rightarrow> 'r world \<Rightarrow> error + 'r world" where
  "backward L loss s =
     (if prod_list (shape (data loss)) \<noteq> 1 then Inl RuntimeError
      else if leaves (grad_fn loss) = [] then Inl RuntimeError
      else Inr (s\<lparr>grads :=
             fold (\<lambda>p G. G(p := accumulate (G p) (autograd L (grad_fn loss) (params s) p)))
               (remdups (leaves (grad_fn loss))) (grads s)\<rparr>))"

text \<open>
  \<^verbatim>\<open>SGD(params, lr).step()\<close> without momentum: every listed parameter that has a
  gradient moves against it.
\<close>

definition add_scaled :: "ndarray \<Rightarrow> ndarray \<Rightarrow> real \<Rightarrow> ndarray" where
  \<comment> \<open>\<^verbatim>\<open>a.add_(g, alpha=alpha)\<close>\<close>
  "add_scaled a g alpha = \<lparr>shape = shape a, elems = map2 (\<lambda>v d. v + alpha * d) (elems a) (elems g)\<rparr>"

definition SGD_update :: "real \<Rightarrow> pname \<Rightarrow> 'r world \<Rightarrow> 'r world" where
  "SGD_update lr p s =
     (case grads s p of
        None \<Rightarrow> s
      | Some g \<Rightarrow> s\<lparr>params := (params s)(p := add_scaled (params s p) g (- lr))\<rparr>)"

definition SGD_step :: "real \<Rightarrow> pname list \<Rightarrow> 'r world \<Rightarrow> 'r world" where
  "SGD_step lr ps s = fold (SGD_update lr) ps s"

text \<open>
  \<^verbatim>\<open>Adam(params, lr).step()\<close> with the defaults \<open>\<beta>\<^sub>1 = 0.9\<close>, \<open>\<beta>\<^sub>2 = 0.999\<close>,
  \<open>\<epsilon> = 10\<^sup>-\<^sup>8\<close>: the moments of a parameter start at zero with its first gradient.
\<close>

definition beta1 :: real where "beta1 = 0.9"
definition beta2 :: real where "beta2 = 0.999"
definition eps :: real where "eps = 1 / 10 ^ 8"

definition zeros_like :: "ndarray \<Rightarrow> ndarray" where
  "zeros_like a = \<lparr>shape = shape a, elems = map (\<lambda>_. 0) (elems a)\<rparr>"

definition Adam_update :: "real \<Rightarrow> pname \<Rightarrow> 'r world \<Rightarrow> 'r world" where
  "Adam_update lr p s =
     (case grads s p of
        None \<Rightarrow> s
      | Some g \<Rightarrow>
          (case (case adam_state s p of
                   None \<Rightarrow> (0, zeros_like (params s p), zeros_like (params s p))
                 | Some st \<Rightarrow> st) of
             (step, exp_avg, exp_avg_sq) \<Rightarrow>
               (let step' = step + 1;
                    m = map2 (\<lambda>a d. a * beta1 + (1 - beta1) * d) (elems exp_avg) (elems g);
                    v = map2 (\<lambda>a d. a * beta2 + (1 - beta2) * d * d) (elems exp_avg_sq) (elems g);
                    bias_correction1 = 1 - beta1 ^ step';
                    bias_correction2 = 1 - beta2 ^ step';
                    step_size = lr / bias_correction1;
                    denom = map (\<lambda>a. sqrt a / sqrt bias_correction2 + eps) v;
                    upd = map2 (\<lambda>a d. a / d) m denom
                in s\<lparr>params := (params s)(p :=
                        add_scaled (params s p) \<lparr>shape = shape g, elems = upd\<rparr> (- step_size)),
                      adam_state := (adam_state s)(p :=
                        Some (step', exp_avg\<lparr>elems := m\<rparr>, exp_avg_sq\<lparr>elems := v\<rparr>))\<rparr>)))"

definition Adam_step :: "real \<Rightarrow> pname list \<Rightarrow> 'r world \<Rightarrow> 'r world" where
  "Adam_step lr ps s = fold (Adam_update lr) ps s"

subsection \<open>The set-up cell\<close>

definition N :: int where
  "N = 10"

definition generator :: module where
  "generator = \<lparr>fc_weight = Gen_fc_weight, fc_bias = Gen_fc_bias\<rparr>"

definition discriminator :: module where
  "discriminator = \<lparr>fc_weight = Disc_fc_weight, fc_bias = Disc_fc_bias\<rparr>"

definition optimizer_gen_step :: "'r world \<Rightarrow> 'r world" where
  "optimizer_gen_step s = SGD_step 0.01 (parameters generator) s"

definition optimizer_disc_step :: "'r world \<Rightarrow> 'r world" where
  "optimizer_disc_step s = Adam_step 0.01 (parameters discriminator) s"

definition criterion :: "bool \<Rightarrow> tensor \<Rightarrow> tensor \<Rightarrow> error + tensor" where
  "criterion = nn_BCELoss"

subsection \<open>The training loop\<close>

definition BATCH_SZ :: int where
  "BATCH_SZ = 128"

text \<open>Lines 131 and 132: the minibatch of noise and of real samples.\<close>

definition sample_minibatch :: "'r lib \<Rightarrow> 'r world \<Rightarrow> error + (tensor \<times> tensor \<times> 'r world)" where
  "sample_minibatch L s =
     then_do (generate_uniform L BATCH_SZ N (np_state s)) (\<lambda>(noise_np, r1).
     then_do (generate_gaussian L BATCH_SZ 1 r1) (\<lambda>(real_np, r2).
     Inr (torch_tensor noise_np, torch_tensor real_np, s\<lparr>np_state := r2\<rparr>)))"

text \<open>Lines 136 and 137: \<open>x\<close> and \<open>y\<close>.\<close>

definition get_X_y :: "'r world \<Rightarrow> tensor \<Rightarrow> tensor \<Rightarrow> error + (tensor \<times> tensor)" where
  "get_X_y s real_t created =
     then_do (torch_concat (grad_enabled s) [real_t, detach created]) (\<lambda>x.
     then_do (torch_ones [BATCH_SZ, 1]) (\<lambda>ones.
     then_do (torch_zeros [BATCH_SZ, 1]) (\<lambda>zeros.
     then_do (torch_concat (grad_enabled s) [ones, zeros]) (\<lambda>y.
     Inr (x, y)))))"

text \<open>Lines 140 to 143: the update of the discriminator.\<close>

definition update_discriminator ::
  "'r lib \<Rightarrow> 'r world \<Rightarrow> tensor \<Rightarrow> tensor \<Rightarrow> error + (tensor \<times> 'r world)" where
  "update_discriminator L s x y =
     then_do (Discriminator_forward s discriminator x) (\<lambda>out1.
     then_do (criterion (grad_enabled s) out1 y) (\<lambda>loss_1.
     then_do (backward L loss_1 s) (\<lambda>s'.
     Inr (loss_1, optimizer_disc_step s'))))"

text \<open>Lines 150 to 152: the loss of the generator and its \<^verbatim>\<open>backward()\<close>.\<close>

definition generator_backward ::
  "'r lib \<Rightarrow> 'r world \<Rightarrow> tensor \<Rightarrow> error + (tensor \<times> 'r world)" where
  "generator_backward L s created =
     then_do (Discriminator_forward s discriminator created) (\<lambda>out2.
     then_do (torch_zeros [BATCH_SZ, 1]) (\<lambda>zeros.
     then_do (criterion (grad_enabled s) out2 zeros) (\<lambda>loss_2.
     then_do (backward L loss_2 s) (\<lambda>s'.
     Inr (loss_2, s')))))"

text \<open>
  The body of the loop, lines 128 to 155, on the two lists and the world. The lists
  receive \<^verbatim>\<open>loss_1.item\<close> and \<^verbatim>\<open>loss_2.item\<close>: the notebook does not call the
  method.
\<close>

definition loop_body ::
  "'r lib \<Rightarrow> pyobj list \<times> pyobj list \<times> 'r world \<Rightarrow> error + (pyobj list \<times> pyobj list \<times> 'r world)" where
  "loop_body L st =
     (case st of (loss_D, loss_G, s) \<Rightarrow>
        (let s1 = zero_grad discriminator s in
         then_do (sample_minibatch L s1) (\<lambda>(noise, real_t, s2).
         then_do (Generator_forward s2 generator noise) (\<lambda>created.
         then_do (get_X_y s2 real_t created) (\<lambda>(x, y).
         then_do (update_discriminator L s2 x y) (\<lambda>(loss_1, s3).
         (let loss_D' = loss_D @ [Item_method loss_1];
              s4 = zero_grad discriminator s3 in
          then_do (generator_backward L s4 created) (\<lambda>(loss_2, s5).
          (let s6 = optimizer_gen_step s5;
               loss_G' = loss_G @ [Item_method loss_2]
           in Inr (loss_D', loss_G', s6))))))))))"

fun for_range ::
  "'r lib \<Rightarrow> nat \<Rightarrow> pyobj list \<times> pyobj list \<times> 'r world \<Rightarrow> error + (pyobj list \<times> pyobj list \<times> 'r world)" where
  "for_range L 0 st = Inr st"
| "for_range L (Suc n) st = then_do (loop_body L st) (for_range L n)"

text \<open>
  \<^verbatim>\<open>train(epochs)\<close> returns the two lists; the model also returns the world it
  leaves behind. \<^verbatim>\<open>range(epochs)\<close> is empty for \<open>epochs \<le> 0\<close>.
\<close>

definition train :: "'r lib \<Rightarrow> int \<Rightarrow> 'r world \<Rightarrow> error + ((pyobj list \<times> pyobj list) \<times> 'r world)" where
  "train L epochs s =
     then_do (for_range L (nat epochs) ([], [], s)) (\<lambda>(loss_D, loss_G, s').
     Inr ((loss_D, loss_G), s'))"

subsection \<open>The loop, observed\<close>

text \<open>
  To speak about what happens inside an iteration, the same lines once more, cut at
  two places: \<open>minibatch\<close> is lines 128 to 137 and returns the real batch, the fake
  batch, \<open>x\<close> and \<open>y\<close>; \<open>forward_backward\<close> is lines 128 to 152 and returns both
  losses and the world in which \<^verbatim>\<open>optimizer_gen.step()\<close> is about to run.
  \<open>run_log\<close> collects these triples over the iterations of a run. That they describe
  \<open>loop_body\<close> and \<open>train\<close> is proved below (\<open>loop_body_eq\<close>, \<open>train_eq_run_log\<close>).
\<close>

definition minibatch ::
  "'r lib \<Rightarrow> 'r world \<Rightarrow> error + (tensor \<times> tensor \<times> tensor \<times> tensor \<times> 'r world)" where
  "minibatch L s =
     then_do (sample_minibatch L (zero_grad discriminator s)) (\<lambda>(noise, real_t, s2).
     then_do (Generator_forward s2 generator noise) (\<lambda>created.
     then_do (get_X_y s2 real_t created) (\<lambda>(x, y).
     Inr (real_t, created, x, y, s2))))"

definition forward_backward ::
  "'r lib \<Rightarrow> 'r world \<Rightarrow> error + (tensor \<times> tensor \<times> 'r world)" where
  "forward_backward L s =
     then_do (minibatch L s) (\<lambda>(real_t, created, x, y, s2).
     then_do (update_discriminator L s2 x y) (\<lambda>(loss_1, s3).
     then_do (generator_backward L (zero_grad discriminator s3) created) (\<lambda>(loss_2, s5).
     Inr (loss_1, loss_2, s5))))"

fun run_log :: "'r lib \<Rightarrow> nat \<Rightarrow> 'r world \<Rightarrow> error + (tensor \<times> tensor \<times> 'r world) list" where
  "run_log L 0 s = Inr []"
| "run_log L (Suc n) s =
     then_do (forward_backward L s) (\<lambda>(loss_1, loss_2, s5).
     then_do (run_log L n (optimizer_gen_step s5)) (\<lambda>rest.
     Inr ((loss_1, loss_2, s5) # rest)))"

text \<open>
  From an entry of the log: the derivative of that iteration's generator loss with
  respect to \<open>p\<close>, and the \<^verbatim>\<open>.grad\<close> of \<open>p\<close> at the moment
  \<^verbatim>\<open>optimizer_gen.step()\<close> runs.
\<close>

definition loss_G_gradient :: "'r lib \<Rightarrow> pname \<Rightarrow> tensor \<times> tensor \<times> 'r world \<Rightarrow> ndarray" where
  "loss_G_gradient L p e = (case e of (loss_1, loss_2, s5) \<Rightarrow> autograd L (grad_fn loss_2) (params s5) p)"

definition stored_gradient :: "pname \<Rightarrow> tensor \<times> tensor \<times> 'r world \<Rightarrow> ndarray option" where
  "stored_gradient p e = (case e of (loss_1, loss_2, s5) \<Rightarrow> grads s5 p)"



subsection \<open>The evaluation cell\<close>

text \<open>
  Lines 205 to 207, with the sample count (10000 in the notebook) and the noise
  dimension (the global \<^verbatim>\<open>N\<close> in the notebook) as arguments: inside
  \<^verbatim>\<open>torch.no_grad()\<close> gradient mode is off, and it is restored on leaving. The
  result is \<^verbatim>\<open>generated_samples\<close>. A noise dimension other than the one the
  generator was built with makes \<open>F_linear\<close> raise.
\<close>

definition evaluate :: "'r lib \<Rightarrow> int \<Rightarrow> int \<Rightarrow> 'r world \<Rightarrow> error + (tensor \<times> 'r world)" where
  "evaluate L sample_count n_dim s =
     (let s0 = s\<lparr>grad_enabled := False\<rparr> in
      then_do (np_random_rand L sample_count n_dim (np_state s0)) (\<lambda>(noise_np, r1).
      (let s1 = s0\<lparr>np_state := r1\<rparr>;
           noise = torch_tensor noise_np in
       then_do (Generator_forward s1 generator noise) (\<lambda>out.
       Inr (detach out, s1\<lparr>grad_enabled := grad_enabled s\<rparr>)))))"

subsection \<open>Well-formed worlds\<close>

text \<open>
  The set-up cell builds \<^verbatim>\<open>Generator(in_feat=N, out_feat=1)\<close> and
  \<^verbatim>\<open>Discriminator(in_feat=1)\<close>: a weight of shape \<open>[1, N]\<close> and a bias of shape
  \<open>[1]\<close>, respectively \<open>[1, 1]\<close> and \<open>[1]\<close>, with values chosen at random. A world is
  well formed when its parameters have these shapes, every stored gradient and
  moment has the shape of its parameter, and gradient mode is on.
\<close>

definition same_shape :: "ndarray \<Rightarrow> ndarray \<Rightarrow> bool" where
  "same_shape a b \<longleftrightarrow> shape a = shape b \<and> length (elems a) = length (elems b)"

definition linear_shape :: "(pname \<Rightarrow> ndarray) \<Rightarrow> module \<Rightarrow> nat \<Rightarrow> nat \<Rightarrow> bool" where
  "linear_shape P m out_f in_f \<longleftrightarrow>
     shape (P (fc_weight m)) = [out_f, in_f] \<and> valid (P (fc_weight m)) \<and>
     shape (P (fc_bias m)) = [out_f] \<and> valid (P (fc_bias m))"

definition all_pnames :: "pname list" where
  "all_pnames = [Gen_fc_weight, Gen_fc_bias, Disc_fc_weight, Disc_fc_bias]"

definition fits :: "ndarray option \<Rightarrow> ndarray \<Rightarrow> bool" where
  "fits old b = (case old of None \<Rightarrow> True | Some a \<Rightarrow> same_shape a b)"

definition grad_shaped :: "'r world \<Rightarrow> pname \<Rightarrow> bool" where
  "grad_shaped s p \<longleftrightarrow>
     fits (grads s p) (params s p) \<and>
     fits (map_option (\<lambda>(k, m, v). m) (adam_state s p)) (params s p) \<and>
     fits (map_option (\<lambda>(k, m, v). v) (adam_state s p)) (params s p)"

definition wf :: "'r world \<Rightarrow> bool" where
  "wf s \<longleftrightarrow>
     linear_shape (params s) generator 1 (nat N) \<and>
     linear_shape (params s) discriminator 1 1 \<and>
     list_all (grad_shaped s) all_pnames \<and>
     grad_enabled s"

text \<open>The derivative of a loss with respect to a parameter has the parameter's shape.\<close>

definition lib_ok :: "'r lib \<Rightarrow> bool" where
  "lib_ok L \<longleftrightarrow> (\<forall>g P p. same_shape (autograd L g P p) (P p))"

subsection \<open>A concrete library and world\<close>

text \<open>
  For evaluating the model on concrete inputs: a generator state that counts the draws
  (every draw is \<open>1/2\<close>), a derivative that is \<open>1\<close> in every component, and the world
  the set-up cell would leave with all parameters \<open>0\<close> except the discriminator's
  weight \<open>1\<close>.
\<close>

definition ones_like :: "ndarray \<Rightarrow> ndarray" where
  "ones_like a = \<lparr>shape = shape a, elems = map (\<lambda>_. 1) (elems a)\<rparr>"

definition lib0 :: "nat lib" where
  "lib0 = \<lparr>standard_normal = (\<lambda>k. (1 / 2, Suc k)),
           random_sample = (\<lambda>k. (1 / 2, Suc k)),
           autograd = (\<lambda>g P p. ones_like (P p))\<rparr>"

definition params0 :: "pname \<Rightarrow> ndarray" where
  "params0 p =
     (case p of
        Gen_fc_weight \<Rightarrow> \<lparr>shape = [1, 10], elems = replicate 10 0\<rparr>
      | Gen_fc_bias \<Rightarrow> \<lparr>shape = [1], elems = [0]\<rparr>
      | Disc_fc_weight \<Rightarrow> \<lparr>shape = [1, 1], elems = [1]\<rparr>
      | Disc_fc_bias \<Rightarrow> \<lparr>shape = [1], elems = [0]\<rparr>)"

definition world0 :: "nat world" where
  "world0 = \<lparr>params = params0, grads = (\<lambda>p. None), adam_state = (\<lambda>p. None),
             np_state = 0, grad_enabled = True\<rparr>"

section \<open>Lemmas: the forward pass\<close>

lemma then_do_Inl [simp]: "then_do (Inl e) f = Inl e"
  by (simp add: then_do_def)

lemma then_do_Inr [simp]: "then_do (Inr x) f = f x"
  by (simp add: then_do_def)

lemma draws_length_aux: "draws f n r = (vs, r') \<Longrightarrow> length vs = n"
  by (induction n arbitrary: r vs r') (auto split: prod.splits)

lemma draws_length: "length (fst (draws f n r)) = n"
  by (cases "draws f n r") (simp add: draws_length_aux)

lemma np_random_rand_ok:
  assumes "0 \<le> d0" and "0 \<le> d1"
  shows "\<exists>a r'. np_random_rand L d0 d1 r = Inr (a, r') \<and> shape a = [nat d0, nat d1]
           \<and> length (elems a) = nat d0 * nat d1"
proof -
  obtain vs r' where d: "draws (random_sample L) (nat d0 * nat d1) r = (vs, r')"
    by (cases "draws (random_sample L) (nat d0 * nat d1) r")
  from draws_length [of "random_sample L" "nat d0 * nat d1" r] d
  have "length vs = nat d0 * nat d1" by simp
  with assms d show ?thesis by (simp add: np_random_rand_def)
qed

lemma np_random_randn_ok:
  assumes "0 \<le> d0" and "0 \<le> d1"
  shows "\<exists>a r'. np_random_randn L d0 d1 r = Inr (a, r') \<and> shape a = [nat d0, nat d1]
           \<and> length (elems a) = nat d0 * nat d1"
proof -
  obtain vs r' where d: "draws (standard_normal L) (nat d0 * nat d1) r = (vs, r')"
    by (cases "draws (standard_normal L) (nat d0 * nat d1) r")
  from draws_length [of "standard_normal L" "nat d0 * nat d1" r] d
  have "length vs = nat d0 * nat d1" by simp
  with assms d show ?thesis by (simp add: np_random_randn_def)
qed

lemma BATCH_SZ_nonneg: "0 \<le> BATCH_SZ" by (simp add: BATCH_SZ_def)
lemma N_nonneg: "0 \<le> N" by (simp add: N_def)

lemma data_track [simp]: "data (track gm a g) = a"
  by (simp add: track_def)

lemma grad_fn_track: "grad_fn (track gm a g) = (if gm \<and> leaves g \<noteq> [] then g else No_grad a)"
  by (simp add: track_def)

lemma length_concat_const:
  assumes "\<And>x. x \<in> set xs \<Longrightarrow> length (f x) = k"
  shows "length (concat (map f xs)) = length xs * k"
  using assms by (induction xs) simp_all

lemma F_linear_ok:
  assumes "shape (P w) = [out_f, in_f]" and "shape (P b) = [out_f]"
    and "length (elems (P b)) = out_f" and "shape (data x) = [n, in_f]"
  shows "\<exists>y. F_linear gm P x w b = Inr (track gm y (Linear_fn (grad_fn x) w b))
            \<and> shape y = [n, out_f] \<and> length (elems y) = n * out_f"
proof -
  let ?W = "rows_of out_f in_f (elems (P w))"
  let ?f = "\<lambda>row. map2 (\<lambda>wr bj. dot row wr + bj) ?W (elems (P b))"
  let ?y = "\<lparr>shape = [n, out_f],
             elems = concat (map ?f (rows_of (prod_list [n]) in_f (elems (data x))))\<rparr>"
  have "length (?f row) = out_f" for row
    using assms(3) by (simp add: rows_of_def)
  then have "length (elems ?y) = n * out_f"
    by (simp add: length_concat_const rows_of_def)
  moreover have "F_linear gm P x w b = Inr (track gm ?y (Linear_fn (grad_fn x) w b))"
    using assms by (simp add: F_linear_def Let_def)
  ultimately show ?thesis by (intro exI [of _ ?y]) simp
qed

lemma sample_minibatch_ok:
  "\<exists>noise real_t r. sample_minibatch L s = Inr (noise, real_t, s\<lparr>np_state := r\<rparr>)
     \<and> shape (data noise) = [nat BATCH_SZ, nat N] \<and> grad_fn noise = No_grad (data noise)
     \<and> shape (data real_t) = [nat BATCH_SZ, 1] \<and> length (elems (data real_t)) = nat BATCH_SZ
     \<and> grad_fn real_t = No_grad (data real_t)"
proof -
  obtain a r1 where a: "np_random_rand L BATCH_SZ N (np_state s) = Inr (a, r1)"
    "shape a = [nat BATCH_SZ, nat N]"
    using np_random_rand_ok [OF BATCH_SZ_nonneg N_nonneg, where L = L and r = "np_state s"] by blast
  obtain b r2 where b: "np_random_randn L BATCH_SZ 1 r1 = Inr (b, r2)"
    "shape b = [nat BATCH_SZ, nat 1]" "length (elems b) = nat BATCH_SZ * nat 1"
    using np_random_randn_ok [OF BATCH_SZ_nonneg, where ?d1.0 = 1 and L = L and r = r1] by force
  show ?thesis using a b
    by (auto simp: sample_minibatch_def generate_uniform_def generate_gaussian_def torch_tensor_def)
qed

lemma Generator_forward_ok:
  assumes "linear_shape (params s) generator 1 k" and "shape (data x) = [n, k]"
  shows "\<exists>c. Generator_forward s generator x = Inr c \<and> shape (data c) = [n, 1]
           \<and> length (elems (data c)) = n
           \<and> grad_fn c = (if grad_enabled s
                then Leaky_relu_fn (Linear_fn (grad_fn x) Gen_fc_weight Gen_fc_bias)
                else No_grad (data c))"
proof -
  from assms(1) have sh: "shape (params s Gen_fc_weight) = [1, k]"
    "shape (params s Gen_fc_bias) = [1]" "length (elems (params s Gen_fc_bias)) = 1"
    by (simp_all add: linear_shape_def generator_def valid_def)
  from F_linear_ok [OF sh assms(2), of "grad_enabled s"]
  obtain y where y: "F_linear (grad_enabled s) (params s) x Gen_fc_weight Gen_fc_bias
        = Inr (track (grad_enabled s) y (Linear_fn (grad_fn x) Gen_fc_weight Gen_fc_bias))"
    "shape y = [n, 1]" "length (elems y) = n * 1"
    by blast
  then show ?thesis
    by (simp add: Generator_forward_def nn_Linear_def generator_def F_leaky_relu_def
        grad_fn_track)
qed

lemma sigmoid_range: "0 < 1 / (1 + exp (- v :: real)) \<and> 1 / (1 + exp (- v)) < 1"
proof -
  have "0 < exp (- v)" by simp
  then have "1 < 1 + exp (- v)" and "0 < 1 + exp (- v)" by linarith+
  then show ?thesis by simp
qed

lemma Discriminator_forward_ok:
  assumes "linear_shape (params s) discriminator 1 1" and "shape (data x) = [n, 1]"
  shows "\<exists>c. Discriminator_forward s discriminator x = Inr c \<and> shape (data c) = [n, 1]
           \<and> length (elems (data c)) = n
           \<and> list_all (\<lambda>v. 0 \<le> v \<and> v \<le> 1) (elems (data c))
           \<and> grad_fn c = (if grad_enabled s
                then Sigmoid_fn (Linear_fn (grad_fn x) Disc_fc_weight Disc_fc_bias)
                else No_grad (data c))"
proof -
  from assms(1) have sh: "shape (params s Disc_fc_weight) = [1, 1]"
    "shape (params s Disc_fc_bias) = [1]" "length (elems (params s Disc_fc_bias)) = 1"
    by (simp_all add: linear_shape_def discriminator_def valid_def)
  from F_linear_ok [OF sh assms(2), of "grad_enabled s"]
  obtain y where y: "F_linear (grad_enabled s) (params s) x Disc_fc_weight Disc_fc_bias
        = Inr (track (grad_enabled s) y (Linear_fn (grad_fn x) Disc_fc_weight Disc_fc_bias))"
    "shape y = [n, 1]" "length (elems y) = n * 1"
    by blast
  have "list_all (\<lambda>v. 0 \<le> v \<and> v \<le> 1) (map (\<lambda>v. 1 / (1 + exp (- v))) vs)" for vs :: "real list"
    using sigmoid_range by (simp add: list_all_iff less_imp_le)
  with y show ?thesis
    by (simp add: Discriminator_forward_def nn_Linear_def discriminator_def F_sigmoid_def
        grad_fn_track)
qed

lemma torch_full_ok:
  "0 \<le> b \<Longrightarrow> torch_full v [b, 1] =
     Inr \<lparr>data = \<lparr>shape = [nat b, 1], elems = replicate (nat b) v\<rparr>,
          grad_fn = No_grad \<lparr>shape = [nat b, 1], elems = replicate (nat b) v\<rparr>\<rparr>"
  by (simp add: torch_full_def torch_tensor_def)

lemma get_X_y_ok:
  assumes "shape (data real_t) = [nat BATCH_SZ, 1]" and "shape (data created) = [nat BATCH_SZ, 1]"
    and "leaves (grad_fn real_t) = []"
  shows "\<exists>x y. get_X_y s real_t created = Inr (x, y)
           \<and> shape (data x) = [nat BATCH_SZ + nat BATCH_SZ, 1]
           \<and> elems (data x) = elems (data real_t) @ elems (data created)
           \<and> grad_fn x = No_grad (data x)
           \<and> shape (data y) = [nat BATCH_SZ + nat BATCH_SZ, 1]
           \<and> elems (data y) = replicate (nat BATCH_SZ) 1 @ replicate (nat BATCH_SZ) 0
           \<and> grad_fn y = No_grad (data y)"
  using assms
  by (simp add: get_X_y_def torch_concat_def torch_ones_def torch_zeros_def
      torch_full_ok [OF BATCH_SZ_nonneg] detach_def grad_fn_track)

lemma criterion_ok:
  assumes "shape (data input) = shape (data target)"
    and "list_all (\<lambda>v. 0 \<le> v \<and> v \<le> 1) (elems (data input))"
  shows "\<exists>loss. criterion gm input target = Inr loss \<and> shape (data loss) = []
           \<and> length (elems (data loss)) = 1
           \<and> grad_fn loss = (if gm \<and> leaves (grad_fn input) @ leaves (grad_fn target) \<noteq> []
                then BCE_fn (grad_fn input) (grad_fn target) else No_grad (data loss))"
  using assms by (simp add: criterion_def nn_BCELoss_def Let_def grad_fn_track)

section \<open>Lemmas: well-formed worlds and gradients\<close>

lemma grad_shaped_all: "list_all (grad_shaped s) all_pnames \<longleftrightarrow> (\<forall>p. grad_shaped s p)"
proof
  assume a: "list_all (grad_shaped s) all_pnames"
  show "\<forall>p. grad_shaped s p"
  proof
    fix p
    from a show "grad_shaped s p" by (cases p) (simp_all add: all_pnames_def)
  qed
next
  assume "\<forall>p. grad_shaped s p"
  then show "list_all (grad_shaped s) all_pnames" by (simp add: all_pnames_def)
qed

lemma wf_alt:
  "wf s \<longleftrightarrow> linear_shape (params s) generator 1 (nat N) \<and>
     linear_shape (params s) discriminator 1 1 \<and> (\<forall>p. grad_shaped s p) \<and> grad_enabled s"
  by (simp only: wf_def grad_shaped_all)

lemma same_shape_refl [simp]: "same_shape a a"
  by (simp add: same_shape_def)

text \<open>A world whose parameters kept their shapes, with gradients and moments that fit.\<close>

lemma wf_transfer:
  assumes "wf s" and "\<And>p. same_shape (params s' p) (params s p)"
    and "\<And>p. grad_shaped s' p" and "grad_enabled s'"
  shows "wf s'"
proof -
  have "linear_shape (params s') m a b" if "linear_shape (params s) m a b" for m a b
    using that assms(2) [of "fc_weight m"] assms(2) [of "fc_bias m"]
    by (simp add: linear_shape_def same_shape_def valid_def)
  with assms show ?thesis by (simp add: wf_alt)
qed

lemma fold_upd:
  "distinct ps \<Longrightarrow>
     fold (\<lambda>p G. G(p := h p (G p))) ps G q = (if q \<in> set ps then h q (G q) else G q)"
  by (induction ps arbitrary: G) auto

lemma fits_simps [simp]: "fits None b" "fits (Some a) b = same_shape a b"
  by (simp_all add: fits_def)

lemma fits_same_shape: "same_shape b' b \<Longrightarrow> fits old b \<Longrightarrow> fits old b'"
  by (cases old) (simp_all add: same_shape_def)

lemma zero_grad_fields [simp]:
  "params (zero_grad m s) = params s" "adam_state (zero_grad m s) = adam_state s"
  "np_state (zero_grad m s) = np_state s" "grad_enabled (zero_grad m s) = grad_enabled s"
  by (simp_all add: zero_grad_def)

lemma zero_grad_grads:
  "grads (zero_grad m s) q = (if q \<in> set (parameters m) then None else grads s q)"
  by (cases "fc_weight m = fc_bias m") (simp_all add: zero_grad_def parameters_def)

lemma wf_zero_grad: "wf s \<Longrightarrow> wf (zero_grad m s)"
  by (rule wf_transfer [of s]) (simp_all add: wf_alt grad_shaped_def zero_grad_grads)

lemma wf_np_state [simp]: "wf (s\<lparr>np_state := r\<rparr>) = wf s"
  by (simp add: wf_def grad_shaped_def all_pnames_def)

lemma backward_ok:
  assumes "shape (data loss) = []" and "leaves (grad_fn loss) \<noteq> []"
  shows "\<exists>s'. backward L loss s = Inr s' \<and> params s' = params s \<and> adam_state s' = adam_state s
          \<and> np_state s' = np_state s \<and> grad_enabled s' = grad_enabled s
          \<and> (\<forall>q. grads s' q = (if q \<in> set (leaves (grad_fn loss))
                then accumulate (grads s q) (autograd L (grad_fn loss) (params s) q)
                else grads s q))"
  using assms
  by (simp add: backward_def fold_upd [where h = "\<lambda>p old. accumulate old (autograd L (grad_fn loss) (params s) p)"])

lemma fits_accumulate:
  assumes "fits old b" and "same_shape g b"
  shows "fits (accumulate old g) b"
  using assms by (cases old) (simp_all add: accumulate_def nd_add_def same_shape_def)

section \<open>Lemmas: the optimizers\<close>

lemma SGD_update_fields [simp]:
  "grads (SGD_update lr p s) = grads s" "adam_state (SGD_update lr p s) = adam_state s"
  "np_state (SGD_update lr p s) = np_state s" "grad_enabled (SGD_update lr p s) = grad_enabled s"
  by (simp_all add: SGD_update_def split: option.splits)

lemma SGD_update_other: "q \<noteq> p \<Longrightarrow> params (SGD_update lr p s) q = params s q"
  by (simp add: SGD_update_def split: option.splits)

lemma SGD_update_same_shape:
  "fits (grads s p) (params s p) \<Longrightarrow> same_shape (params (SGD_update lr p s) q) (params s q)"
  by (cases "grads s p") (simp_all add: SGD_update_def same_shape_def add_scaled_def)

lemma grad_shaped_transfer:
  assumes "grad_shaped s p" and "same_shape (params s' p) (params s p)"
    and "grads s' p = grads s p" and "adam_state s' p = adam_state s p"
  shows "grad_shaped s' p"
  using assms by (simp add: grad_shaped_def fits_same_shape)

lemma wf_SGD_update: "wf s \<Longrightarrow> wf (SGD_update lr p s)"
proof (rule wf_transfer [of s])
  assume w: "wf s"
  then show "wf s" .
  from w have gs: "grad_shaped s q" for q by (simp add: wf_alt)
  then have f: "fits (grads s p) (params s p)" by (simp add: grad_shaped_def)
  show "same_shape (params (SGD_update lr p s) q) (params s q)" for q
    by (rule SGD_update_same_shape [OF f])
  show "grad_shaped (SGD_update lr p s) q" for q
    by (rule grad_shaped_transfer [OF gs SGD_update_same_shape [OF f]]) simp_all
  from w show "grad_enabled (SGD_update lr p s)" by (simp add: wf_alt)
qed

lemma wf_SGD_step: "wf s \<Longrightarrow> wf (SGD_step lr ps s)"
  unfolding SGD_step_def by (induction ps arbitrary: s) (simp_all add: wf_SGD_update)

lemma SGD_step_fields [simp]:
  "grads (SGD_step lr ps s) = grads s" "adam_state (SGD_step lr ps s) = adam_state s"
  "np_state (SGD_step lr ps s) = np_state s" "grad_enabled (SGD_step lr ps s) = grad_enabled s"
  unfolding SGD_step_def by (induction ps arbitrary: s; simp)+

lemma SGD_step_frame: "q \<notin> set ps \<Longrightarrow> params (SGD_step lr ps s) q = params s q"
  unfolding SGD_step_def by (induction ps arbitrary: s) (simp_all add: SGD_update_other)

lemma Adam_update_fields [simp]:
  "grads (Adam_update lr p s) = grads s"
  "np_state (Adam_update lr p s) = np_state s" "grad_enabled (Adam_update lr p s) = grad_enabled s"
  by (simp_all add: Adam_update_def Let_def split: option.splits prod.splits)

lemma Adam_update_other:
  "q \<noteq> p \<Longrightarrow> params (Adam_update lr p s) q = params s q"
  "q \<noteq> p \<Longrightarrow> adam_state (Adam_update lr p s) q = adam_state s q"
  by (simp_all add: Adam_update_def Let_def split: option.splits prod.splits)

lemma Adam_update_same_shape:
  assumes "grad_shaped s p"
  shows "same_shape (params (Adam_update lr p s) q) (params s q)"
proof (cases "q = p")
  case False
  then show ?thesis by (simp add: Adam_update_other)
next
  case True
  show ?thesis
  proof (cases "grads s p")
    case None
    then show ?thesis by (simp add: Adam_update_def)
  next
    case (Some g)
    with assms show ?thesis
      unfolding True
      by (cases "adam_state s p")
        (auto simp: Adam_update_def Let_def grad_shaped_def same_shape_def zeros_like_def add_scaled_def)
  qed
qed

lemma Adam_update_grad_shaped:
  assumes "grad_shaped s p"
  shows "grad_shaped (Adam_update lr p s) p"
proof (cases "grads s p")
  case None
  with assms show ?thesis by (simp add: Adam_update_def)
next
  case (Some g)
  with assms show ?thesis
    by (cases "adam_state s p")
      (auto simp: Adam_update_def Let_def grad_shaped_def same_shape_def zeros_like_def add_scaled_def)
qed

lemma wf_Adam_update: "wf s \<Longrightarrow> wf (Adam_update lr p s)"
proof (rule wf_transfer [of s])
  assume w: "wf s"
  then show "wf s" .
  from w have gs: "grad_shaped s q" for q by (simp add: wf_alt)
  show "same_shape (params (Adam_update lr p s) q) (params s q)" for q
    by (rule Adam_update_same_shape [OF gs])
  show "grad_shaped (Adam_update lr p s) q" for q
  proof (cases "q = p")
    case True
    then show ?thesis using Adam_update_grad_shaped [OF gs] by simp
  next
    case False
    show ?thesis
      by (rule grad_shaped_transfer [OF gs Adam_update_same_shape [OF gs]])
        (simp_all add: Adam_update_other False)
  qed
  from w show "grad_enabled (Adam_update lr p s)" by (simp add: wf_alt)
qed

lemma wf_Adam_step: "wf s \<Longrightarrow> wf (Adam_step lr ps s)"
  unfolding Adam_step_def by (induction ps arbitrary: s) (simp_all add: wf_Adam_update)

lemma Adam_step_fields [simp]:
  "grads (Adam_step lr ps s) = grads s"
  "np_state (Adam_step lr ps s) = np_state s" "grad_enabled (Adam_step lr ps s) = grad_enabled s"
  unfolding Adam_step_def by (induction ps arbitrary: s; simp)+

lemma Adam_step_frame: "q \<notin> set ps \<Longrightarrow> params (Adam_step lr ps s) q = params s q"
  unfolding Adam_step_def by (induction ps arbitrary: s) (simp_all add: Adam_update_other)

section \<open>Lemmas: the two updates\<close>

lemma backward_Inr:
  assumes "backward L loss s = Inr s'"
  shows "s' = s\<lparr>grads := fold (\<lambda>p G. G(p := accumulate (G p) (autograd L (grad_fn loss) (params s) p)))
               (remdups (leaves (grad_fn loss))) (grads s)\<rparr>"
  using assms by (simp add: backward_def split: if_splits)

lemma backward_fields:
  assumes "backward L loss s = Inr s'"
  shows "params s' = params s" "adam_state s' = adam_state s"
    "np_state s' = np_state s" "grad_enabled s' = grad_enabled s"
    "grads s' q = (if q \<in> set (leaves (grad_fn loss))
                then accumulate (grads s q) (autograd L (grad_fn loss) (params s) q)
                else grads s q)"
  by (simp_all add: backward_Inr [OF assms]
      fold_upd [where h = "\<lambda>p old. accumulate old (autograd L (grad_fn loss) (params s) p)"])

lemma wf_backward:
  assumes "wf s" and "lib_ok L" and "backward L loss s = Inr s'"
  shows "wf s'"
proof -
  note f = backward_fields [OF assms(3)]
  have "grad_shaped s' p" for p
  proof -
    from assms(1) have gs: "grad_shaped s p" by (simp add: wf_alt)
    from assms(2) have "same_shape (autograd L (grad_fn loss) (params s) p) (params s p)"
      by (simp add: lib_ok_def)
    with gs show ?thesis by (simp add: grad_shaped_def f fits_accumulate)
  qed
  with assms(1) show ?thesis by (rule_tac s = s in wf_transfer) (simp_all add: f wf_alt)
qed

lemma parameters_generator [simp]: "parameters generator = [Gen_fc_weight, Gen_fc_bias]"
  by (simp add: parameters_def generator_def)

lemma parameters_discriminator [simp]: "parameters discriminator = [Disc_fc_weight, Disc_fc_bias]"
  by (simp add: parameters_def discriminator_def)

lemma update_discriminator_ok:
  assumes w: "wf s" and l: "lib_ok L"
    and x: "shape (data x) = [n, 1]" "leaves (grad_fn x) = []"
    and y: "shape (data y) = [n, 1]" "leaves (grad_fn y) = []"
  shows "\<exists>loss_1 s'. update_discriminator L s x y = Inr (loss_1, s') \<and> wf s'
           \<and> np_state s' = np_state s \<and> shape (data loss_1) = []
           \<and> length (elems (data loss_1)) = 1
           \<and> (\<forall>q \<in> set (parameters generator). params s' q = params s q \<and> grads s' q = grads s q)"
proof -
  from w have ds: "linear_shape (params s) discriminator 1 1" and ge: "grad_enabled s"
    by (simp_all add: wf_alt)
  from Discriminator_forward_ok [OF ds x(1)] ge
  obtain out1 where o: "Discriminator_forward s discriminator x = Inr out1"
    "shape (data out1) = [n, 1]" "list_all (\<lambda>v. 0 \<le> v \<and> v \<le> 1) (elems (data out1))"
    "grad_fn out1 = Sigmoid_fn (Linear_fn (grad_fn x) Disc_fc_weight Disc_fc_bias)"
    by auto
  from o(2) y(1) have "shape (data out1) = shape (data y)" by simp
  from criterion_ok [OF this o(3), of "grad_enabled s"] ge o(4) x(2) y(2)
  obtain loss_1 where c: "criterion (grad_enabled s) out1 y = Inr loss_1"
    "shape (data loss_1) = []" "length (elems (data loss_1)) = 1"
    "grad_fn loss_1 = BCE_fn (grad_fn out1) (grad_fn y)"
    by auto
  have lv: "leaves (grad_fn loss_1) = [Disc_fc_weight, Disc_fc_bias]"
    by (simp add: c(4) o(4) x(2) y(2))
  from backward_ok [of loss_1 L s] c(2) lv
  obtain s1 where b: "backward L loss_1 s = Inr s1" by auto
  note f = backward_fields [OF b]
  have w1: "wf s1" by (rule wf_backward [OF w l b])
  let ?s' = "optimizer_disc_step s1"
  have "update_discriminator L s x y = Inr (loss_1, ?s')"
    by (simp add: update_discriminator_def o(1) c(1) b)
  moreover have "wf ?s'" using w1 by (simp add: optimizer_disc_step_def wf_Adam_step)
  moreover have "np_state ?s' = np_state s" by (simp add: optimizer_disc_step_def f)
  moreover have "params ?s' q = params s q \<and> grads ?s' q = grads s q"
    if "q \<in> set (parameters generator)" for q
    using that by (auto simp: optimizer_disc_step_def Adam_step_frame f lv)
  ultimately show ?thesis using c(2,3) by blast
qed

lemma generator_backward_ok:
  assumes w: "wf s" and l: "lib_ok L"
    and c: "shape (data created) = [nat BATCH_SZ, 1]"
      "grad_fn created = Leaky_relu_fn (Linear_fn (No_grad d) Gen_fc_weight Gen_fc_bias)"
  shows "\<exists>loss_2 s'. generator_backward L s created = Inr (loss_2, s') \<and> wf s'
           \<and> params s' = params s \<and> np_state s' = np_state s \<and> adam_state s' = adam_state s
           \<and> shape (data loss_2) = [] \<and> length (elems (data loss_2)) = 1
           \<and> (\<forall>q. grads s' q = accumulate (grads s q) (autograd L (grad_fn loss_2) (params s) q))"
proof -
  from w have ds: "linear_shape (params s) discriminator 1 1" and ge: "grad_enabled s"
    by (simp_all add: wf_alt)
  from Discriminator_forward_ok [OF ds c(1)] ge
  obtain out2 where o: "Discriminator_forward s discriminator created = Inr out2"
    "shape (data out2) = [nat BATCH_SZ, 1]" "list_all (\<lambda>v. 0 \<le> v \<and> v \<le> 1) (elems (data out2))"
    "grad_fn out2 = Sigmoid_fn (Linear_fn (grad_fn created) Disc_fc_weight Disc_fc_bias)"
    by auto
  define zeros where "zeros = \<lparr>data = \<lparr>shape = [nat BATCH_SZ, 1], elems = replicate (nat BATCH_SZ) 0\<rparr>,
          grad_fn = No_grad \<lparr>shape = [nat BATCH_SZ, 1], elems = replicate (nat BATCH_SZ) 0\<rparr>\<rparr>"
  have z: "torch_zeros [BATCH_SZ, 1] = Inr zeros"
    by (simp add: torch_zeros_def torch_full_ok [OF BATCH_SZ_nonneg] zeros_def)
  have "shape (data out2) = shape (data zeros)" by (simp add: o(2) zeros_def)
  from criterion_ok [OF this o(3), of "grad_enabled s"] ge o(4) c(2)
  obtain loss_2 where cr: "criterion (grad_enabled s) out2 zeros = Inr loss_2"
    "shape (data loss_2) = []" "length (elems (data loss_2)) = 1"
    "grad_fn loss_2 = BCE_fn (grad_fn out2) (grad_fn zeros)"
    by auto
  have lv: "leaves (grad_fn loss_2) = [Gen_fc_weight, Gen_fc_bias, Disc_fc_weight, Disc_fc_bias]"
    by (simp add: cr(4) o(4) c(2) zeros_def)
  from backward_ok [of loss_2 L s] cr(2) lv
  obtain s1 where b: "backward L loss_2 s = Inr s1" by auto
  note f = backward_fields [OF b]
  have "generator_backward L s created = Inr (loss_2, s1)"
    by (simp add: generator_backward_def o(1) z cr(1) b)
  moreover have "wf s1" by (rule wf_backward [OF w l b])
  moreover have "grads s1 q = accumulate (grads s q) (autograd L (grad_fn loss_2) (params s) q)" for q
    by (cases q) (simp_all add: f lv)
  ultimately show ?thesis using cr(2,3) f(1-3) by blast
qed

section \<open>Lemmas: one iteration\<close>

lemma minibatch_ok:
  assumes w: "wf s"
  shows "\<exists>real_t created x y r d. minibatch L s = Inr (real_t, created, x, y, (zero_grad discriminator s)\<lparr>np_state := r\<rparr>)
     \<and> shape (data real_t) = [nat BATCH_SZ, 1] \<and> length (elems (data real_t)) = nat BATCH_SZ
     \<and> shape (data created) = [nat BATCH_SZ, 1] \<and> length (elems (data created)) = nat BATCH_SZ
     \<and> grad_fn created = Leaky_relu_fn (Linear_fn (No_grad d) Gen_fc_weight Gen_fc_bias)
     \<and> shape (data x) = [nat BATCH_SZ + nat BATCH_SZ, 1]
     \<and> elems (data x) = elems (data real_t) @ elems (data created)
     \<and> grad_fn x = No_grad (data x)
     \<and> shape (data y) = [nat BATCH_SZ + nat BATCH_SZ, 1]
     \<and> elems (data y) = replicate (nat BATCH_SZ) 1 @ replicate (nat BATCH_SZ) 0
     \<and> grad_fn y = No_grad (data y)"
proof -
  let ?s1 = "zero_grad discriminator s"
  obtain noise real_t r where m: "sample_minibatch L ?s1 = Inr (noise, real_t, ?s1\<lparr>np_state := r\<rparr>)"
    "shape (data noise) = [nat BATCH_SZ, nat N]" "grad_fn noise = No_grad (data noise)"
    "shape (data real_t) = [nat BATCH_SZ, 1]" "length (elems (data real_t)) = nat BATCH_SZ"
    "grad_fn real_t = No_grad (data real_t)"
    using sample_minibatch_ok [of L ?s1] by blast
  let ?s2 = "?s1\<lparr>np_state := r\<rparr>"
  from w have "wf ?s2" by (simp add: wf_zero_grad)
  then have gs: "linear_shape (params ?s2) generator 1 (nat N)" and ge: "grad_enabled ?s2"
    by (simp_all only: wf_alt)
  from Generator_forward_ok [OF gs m(2)] ge m(3)
  obtain created where c: "Generator_forward ?s2 generator noise = Inr created"
    "shape (data created) = [nat BATCH_SZ, 1]" "length (elems (data created)) = nat BATCH_SZ"
    "grad_fn created = Leaky_relu_fn (Linear_fn (No_grad (data noise)) Gen_fc_weight Gen_fc_bias)"
    by auto
  have "leaves (grad_fn real_t) = []" by (simp add: m(6))
  from get_X_y_ok [OF m(4) c(2) this, of ?s2]
  obtain x y where xy: "get_X_y ?s2 real_t created = Inr (x, y)"
    "shape (data x) = [nat BATCH_SZ + nat BATCH_SZ, 1]"
    "elems (data x) = elems (data real_t) @ elems (data created)"
    "grad_fn x = No_grad (data x)"
    "shape (data y) = [nat BATCH_SZ + nat BATCH_SZ, 1]"
    "elems (data y) = replicate (nat BATCH_SZ) 1 @ replicate (nat BATCH_SZ) 0"
    "grad_fn y = No_grad (data y)"
    by blast
  have "minibatch L s = Inr (real_t, created, x, y, ?s2)"
    by (simp add: minibatch_def m(1) c(1) xy(1))
  with m(4,5) c(2,3,4) xy(2-7) show ?thesis by blast
qed

lemma forward_backward_ok:
  assumes w: "wf s" and l: "lib_ok L"
  shows "\<exists>loss_1 loss_2 s5. forward_backward L s = Inr (loss_1, loss_2, s5) \<and> wf s5
     \<and> shape (data loss_1) = [] \<and> length (elems (data loss_1)) = 1
     \<and> shape (data loss_2) = [] \<and> length (elems (data loss_2)) = 1
     \<and> (\<forall>q \<in> set (parameters generator). params s5 q = params s q
           \<and> grads s5 q = accumulate (grads s q) (autograd L (grad_fn loss_2) (params s5) q))
     \<and> (\<forall>q \<in> set (parameters discriminator).
           grads s5 q = Some (autograd L (grad_fn loss_2) (params s5) q))"
proof -
  let ?s1 = "zero_grad discriminator s"
  from minibatch_ok [OF w, of L]
  obtain real_t created x y r d where m: "minibatch L s = Inr (real_t, created, x, y, ?s1\<lparr>np_state := r\<rparr>)"
    "shape (data created) = [nat BATCH_SZ, 1]"
    "grad_fn created = Leaky_relu_fn (Linear_fn (No_grad d) Gen_fc_weight Gen_fc_bias)"
    "shape (data x) = [nat BATCH_SZ + nat BATCH_SZ, 1]" "grad_fn x = No_grad (data x)"
    "shape (data y) = [nat BATCH_SZ + nat BATCH_SZ, 1]" "grad_fn y = No_grad (data y)"
    by blast
  let ?s2 = "?s1\<lparr>np_state := r\<rparr>"
  from w have w2: "wf ?s2" by (simp add: wf_zero_grad)
  have lx: "leaves (grad_fn x) = []" and ly: "leaves (grad_fn y) = []"
    by (simp_all add: m(5,7))
  from update_discriminator_ok [OF w2 l m(4) lx m(6) ly]
  obtain loss_1 s3 where u: "update_discriminator L ?s2 x y = Inr (loss_1, s3)" "wf s3"
    "shape (data loss_1) = []" "length (elems (data loss_1)) = 1"
    "\<forall>q \<in> set (parameters generator). params s3 q = params ?s2 q \<and> grads s3 q = grads ?s2 q"
    by blast
  let ?s4 = "zero_grad discriminator s3"
  from u(2) have w4: "wf ?s4" by (rule wf_zero_grad)
  from generator_backward_ok [OF w4 l m(2,3)]
  obtain loss_2 s5 where g: "generator_backward L ?s4 created = Inr (loss_2, s5)" "wf s5"
    "params s5 = params ?s4" "shape (data loss_2) = []" "length (elems (data loss_2)) = 1"
    "\<forall>q. grads s5 q = accumulate (grads ?s4 q) (autograd L (grad_fn loss_2) (params ?s4) q)"
    by blast
  have "forward_backward L s = Inr (loss_1, loss_2, s5)"
    by (simp add: forward_backward_def m(1) u(1) g(1))
  moreover have "params s5 q = params s q
      \<and> grads s5 q = accumulate (grads s q) (autograd L (grad_fn loss_2) (params s5) q)"
    if "q \<in> set (parameters generator)" for q
  proof -
    from that u(5) have a: "params s3 q = params s q" "grads s3 q = grads ?s1 q" by auto
    from that have b: "grads ?s1 q = grads s q" "grads ?s4 q = grads s3 q"
      by (auto simp: zero_grad_grads)
    from g(6) have "grads s5 q = accumulate (grads ?s4 q) (autograd L (grad_fn loss_2) (params ?s4) q)"
      by blast
    with a b show ?thesis by (simp add: g(3))
  qed
  moreover have "grads s5 q = Some (autograd L (grad_fn loss_2) (params s5) q)"
    if "q \<in> set (parameters discriminator)" for q
  proof -
    from that have "grads ?s4 q = None" by (simp add: zero_grad_grads)
    with g(6) show ?thesis by (simp add: g(3) accumulate_def)
  qed
  ultimately show ?thesis using g(2,4,5) u(3,4) by blast
qed

lemma loop_body_eq:
  "loop_body L (loss_D, loss_G, s) =
     then_do (forward_backward L s) (\<lambda>(loss_1, loss_2, s5).
       Inr (loss_D @ [Item_method loss_1], loss_G @ [Item_method loss_2], optimizer_gen_step s5))"
  by (simp add: loop_body_def forward_backward_def minibatch_def Let_def then_do_def
      split: sum.splits prod.splits)

section \<open>Lemmas: the whole run\<close>

lemma wf_optimizer_gen_step: "wf s \<Longrightarrow> wf (optimizer_gen_step s)"
  by (simp add: optimizer_gen_step_def wf_SGD_step)

lemma optimizer_gen_step_fields [simp]:
  "grads (optimizer_gen_step s) = grads s" "adam_state (optimizer_gen_step s) = adam_state s"
  "np_state (optimizer_gen_step s) = np_state s"
  by (simp_all add: optimizer_gen_step_def)

lemma optimizer_gen_step_params:
  assumes "q \<in> set (parameters generator)" and "grads s q = Some g"
  shows "params (optimizer_gen_step s) q = add_scaled (params s q) g (- 0.01)"
  using assms
  by (auto simp: optimizer_gen_step_def SGD_step_def SGD_update_def split: option.splits)

lemma run_log_ok:
  assumes "wf s" and "lib_ok L"
  shows "\<exists>hist. run_log L n s = Inr hist \<and> length hist = n"
  using assms(1)
proof (induction n arbitrary: s)
  case 0
  then show ?case by simp
next
  case (Suc n)
  from forward_backward_ok [OF Suc.prems assms(2)]
  obtain loss_1 loss_2 s5 where f: "forward_backward L s = Inr (loss_1, loss_2, s5)" "wf s5"
    by blast
  from Suc.IH [OF wf_optimizer_gen_step [OF f(2)]]
  obtain rest where "run_log L n (optimizer_gen_step s5) = Inr rest" "length rest = n"
    by blast
  with f(1) show ?case by simp
qed

lemma for_range_run_log:
  assumes "run_log L n s = Inr hist"
  shows "for_range L n (loss_D, loss_G, s) =
           Inr (loss_D @ map (\<lambda>e. Item_method (fst e)) hist,
                loss_G @ map (\<lambda>e. Item_method (fst (snd e))) hist,
                if hist = [] then s else optimizer_gen_step (snd (snd (last hist))))"
  using assms
proof (induction n arbitrary: s hist loss_D loss_G)
  case 0
  then show ?case by simp
next
  case (Suc n)
  from Suc.prems obtain loss_1 loss_2 s5 rest where
    f: "forward_backward L s = Inr (loss_1, loss_2, s5)"
    and r: "run_log L n (optimizer_gen_step s5) = Inr rest"
    and lg: "hist = (loss_1, loss_2, s5) # rest"
    by (auto simp: then_do_def split: sum.splits)
  from Suc.IH [OF r, of "loss_D @ [Item_method loss_1]" "loss_G @ [Item_method loss_2]"]
  show ?case by (simp add: loop_body_eq f lg)
qed

lemma train_eq_run_log:
  assumes "run_log L (nat epochs) s = Inr hist"
  shows "train L epochs s =
           Inr ((map (\<lambda>e. Item_method (fst e)) hist, map (\<lambda>e. Item_method (fst (snd e))) hist),
                if hist = [] then s else optimizer_gen_step (snd (snd (last hist))))"
  using for_range_run_log [OF assms, of "[]" "[]"] by (simp add: train_def)




section \<open>Trace lengths and parameter isolation\<close>


lemma for_range_wf:
  assumes "lib_ok L"
  shows "wf s \<Longrightarrow> for_range L n (loss_D, loss_G, s) = Inr (loss_D', loss_G', s') \<Longrightarrow> wf s'"
proof (induction n arbitrary: s loss_D loss_G)
  case 0
  then show ?case by simp
next
  case (Suc n)
  from forward_backward_ok [OF Suc.prems(1) assms]
  obtain loss_1 loss_2 s5 where f: "forward_backward L s = Inr (loss_1, loss_2, s5)" "wf s5"
    by blast
  from Suc.prems(2)
  have "for_range L n (loss_D @ [Item_method loss_1], loss_G @ [Item_method loss_2],
          optimizer_gen_step s5) = Inr (loss_D', loss_G', s')"
    by (simp add: loop_body_eq f(1))
  from Suc.IH [OF wf_optimizer_gen_step [OF f(2)] this] show ?case .
qed


lemma wf_world0: "wf world0"
  by (simp add: wf_def world0_def params0_def linear_shape_def generator_def
      discriminator_def valid_def all_pnames_def grad_shaped_def N_def)

lemma lib_ok_lib0: "lib_ok lib0"
  by (simp add: lib_ok_def lib0_def same_shape_def ones_like_def)

text \<open>
  C6. For every \<open>epochs \<ge> 0\<close>, \<^verbatim>\<open>train(epochs)\<close> on a well-formed world returns
  two lists, each of length exactly \<open>epochs\<close>.
\<close>

theorem train_trace_lengths:
  assumes "0 \<le> epochs" and "wf s" and "lib_ok L"
  shows "\<exists>loss_D loss_G s'. train L epochs s = Inr ((loss_D, loss_G), s')
           \<and> int (length loss_D) = epochs \<and> int (length loss_G) = epochs"
proof -
  from run_log_ok [OF assms(2,3), of "nat epochs"]
  obtain hist where h: "run_log L (nat epochs) s = Inr hist" "length hist = nat epochs"
    by blast
  from train_eq_run_log [OF h(1)] h(2) assms(1) show ?thesis by auto
qed

theorem train_trace_lengths_witness:
  "(0::int) \<le> 3 \<and> wf world0 \<and> lib_ok lib0 \<and>
   (\<exists>loss_D loss_G s'. train lib0 3 world0 = Inr ((loss_D, loss_G), s')
      \<and> int (length loss_D) = 3 \<and> int (length loss_G) = 3)"
  using train_trace_lengths [of 3 world0 lib0] wf_world0 lib_ok_lib0 by simp

text \<open>
  C4. The step of the discriminator's optimizer leaves both parameters of the
  generator as they are, and the step of the generator's optimizer leaves both
  parameters of the discriminator as they are, in every world.
\<close>

theorem optimizer_steps_isolated:
  "map (params (optimizer_disc_step s)) (parameters generator) = map (params s) (parameters generator)
   \<and> map (params (optimizer_gen_step s)) (parameters discriminator)
       = map (params s) (parameters discriminator)"
  by (simp add: optimizer_disc_step_def optimizer_gen_step_def Adam_step_frame SGD_step_frame)

section \<open>The batch of the discriminator, evaluation and the sample generators\<close>

lemma loop_body_batch:
  assumes "wf s" and "lib_ok L"
  shows "\<exists>noise_np r1 real_np r2 created x y.
       generate_uniform L BATCH_SZ N (np_state s) = Inr (noise_np, r1)
     \<and> generate_gaussian L BATCH_SZ 1 r1 = Inr (real_np, r2)
     \<and> Generator_forward ((zero_grad discriminator s)\<lparr>np_state := r2\<rparr>) generator
           (torch_tensor noise_np) = Inr created
     \<and> shape real_np = [nat BATCH_SZ, 1] \<and> length (elems real_np) = nat BATCH_SZ
     \<and> shape (data created) = [nat BATCH_SZ, 1] \<and> length (elems (data created)) = nat BATCH_SZ
     \<and> shape (data x) = [nat BATCH_SZ + nat BATCH_SZ, 1]
     \<and> elems (data x) = elems real_np @ elems (data created)
     \<and> grad_fn x = No_grad (data x)
     \<and> shape (data y) = [nat BATCH_SZ + nat BATCH_SZ, 1]
     \<and> elems (data y) = replicate (nat BATCH_SZ) 1 @ replicate (nat BATCH_SZ) 0
     \<and> grad_fn y = No_grad (data y)
     \<and> (\<exists>loss_1 s3. update_discriminator L ((zero_grad discriminator s)\<lparr>np_state := r2\<rparr>) x y
           = Inr (loss_1, s3))
     \<and> loop_body L (loss_D, loss_G, s) =
         then_do (update_discriminator L ((zero_grad discriminator s)\<lparr>np_state := r2\<rparr>) x y)
           (\<lambda>(loss_1, s3).
         then_do (generator_backward L (zero_grad discriminator s3) created) (\<lambda>(loss_2, s5).
         Inr (loss_D @ [Item_method loss_1], loss_G @ [Item_method loss_2],
              optimizer_gen_step s5)))"
proof -
  let ?s1 = "zero_grad discriminator s"
  obtain a r1 where a: "np_random_rand L BATCH_SZ N (np_state s) = Inr (a, r1)"
    "shape a = [nat BATCH_SZ, nat N]"
    using np_random_rand_ok [OF BATCH_SZ_nonneg N_nonneg, where L = L and r = "np_state s"]
    by blast
  obtain b r2 where b: "np_random_randn L BATCH_SZ 1 r1 = Inr (b, r2)"
    "shape b = [nat BATCH_SZ, 1]" "length (elems b) = nat BATCH_SZ"
    using np_random_randn_ok [OF BATCH_SZ_nonneg, where ?d1.0 = 1 and L = L and r = r1]
    by force
  let ?s2 = "?s1\<lparr>np_state := r2\<rparr>"
  from assms(1) have w2: "wf ?s2" by (simp add: wf_zero_grad)
  then have gs: "linear_shape (params ?s2) generator 1 (nat N)" and ge: "grad_enabled ?s2"
    by (simp_all only: wf_alt)
  have na: "shape (data (torch_tensor a)) = [nat BATCH_SZ, nat N]"
    by (simp add: torch_tensor_def a(2))
  from Generator_forward_ok [OF gs na]
  obtain created where c: "Generator_forward ?s2 generator (torch_tensor a) = Inr created"
    "shape (data created) = [nat BATCH_SZ, 1]" "length (elems (data created)) = nat BATCH_SZ"
    by blast
  have rb: "shape (data (torch_tensor b)) = [nat BATCH_SZ, 1]"
    "leaves (grad_fn (torch_tensor b)) = []"
    by (simp_all add: torch_tensor_def b(2))
  from get_X_y_ok [OF rb(1) c(2) rb(2), of ?s2]
  obtain x y where xy: "get_X_y ?s2 (torch_tensor b) created = Inr (x, y)"
    "shape (data x) = [nat BATCH_SZ + nat BATCH_SZ, 1]"
    "elems (data x) = elems (data (torch_tensor b)) @ elems (data created)"
    "grad_fn x = No_grad (data x)"
    "shape (data y) = [nat BATCH_SZ + nat BATCH_SZ, 1]"
    "elems (data y) = replicate (nat BATCH_SZ) 1 @ replicate (nat BATCH_SZ) 0"
    "grad_fn y = No_grad (data y)"
    by blast
  have ex: "elems (data x) = elems b @ elems (data created)"
    using xy(3) by (simp add: torch_tensor_def)
  have lx: "leaves (grad_fn x) = []" and ly: "leaves (grad_fn y) = []"
    by (simp_all add: xy(4,7))
  from update_discriminator_ok [OF w2 assms(2) xy(2) lx xy(5) ly]
  have ud: "\<exists>loss_1 s3. update_discriminator L ?s2 x y = Inr (loss_1, s3)"
    by blast
  have sm: "sample_minibatch L ?s1 = Inr (torch_tensor a, torch_tensor b, ?s2)"
    by (simp add: sample_minibatch_def generate_uniform_def generate_gaussian_def a(1) b(1))
  have lb: "loop_body L (loss_D, loss_G, s) =
         then_do (update_discriminator L ?s2 x y) (\<lambda>(loss_1, s3).
         then_do (generator_backward L (zero_grad discriminator s3) created) (\<lambda>(loss_2, s5).
         Inr (loss_D @ [Item_method loss_1], loss_G @ [Item_method loss_2],
              optimizer_gen_step s5)))"
    by (simp add: loop_body_def Let_def sm c(1) xy(1))
  have gu: "generate_uniform L BATCH_SZ N (np_state s) = Inr (a, r1)"
    and gg: "generate_gaussian L BATCH_SZ 1 r1 = Inr (b, r2)"
    by (simp_all add: generate_uniform_def generate_gaussian_def a(1) b(1))
  from gu gg c b(2,3) xy(2,4,5,6,7) ex ud lb show ?thesis by blast
qed

text \<open>
  C5. In every iteration of a run that starts in a well-formed world (\<open>s\<close> is the
  world after any number \<open>t\<close> of iterations), the loop body draws the noise and the
  real batch, runs the generator on the noise, and hands \<open>update_discriminator\<close> a
  batch \<open>x\<close> and labels \<open>y\<close> without history, both of \<open>2 * BATCH_SZ\<close> rows of one
  column: the first \<open>BATCH_SZ\<close> rows of \<open>x\<close> are the real batch and the next
  \<open>BATCH_SZ\<close> the generator's output, the first \<open>BATCH_SZ\<close> rows of \<open>y\<close> are \<open>1\<close>
  and the next \<open>BATCH_SZ\<close> are \<open>0\<close>. The update of the discriminator accepts them,
  and the rest of the body runs on its result.
\<close>

theorem discriminator_batch_layout:
  assumes "wf s0" and "lib_ok L" and "for_range L t (loss_D0, loss_G0, s0) = Inr (loss_D, loss_G, s)"
  shows "\<exists>noise_np r1 real_np r2 created x y.
       generate_uniform L BATCH_SZ N (np_state s) = Inr (noise_np, r1)
     \<and> generate_gaussian L BATCH_SZ 1 r1 = Inr (real_np, r2)
     \<and> Generator_forward ((zero_grad discriminator s)\<lparr>np_state := r2\<rparr>) generator
           (torch_tensor noise_np) = Inr created
     \<and> length (elems real_np) = nat BATCH_SZ \<and> length (elems (data created)) = nat BATCH_SZ
     \<and> shape (data x) = [2 * nat BATCH_SZ, 1]
     \<and> take (nat BATCH_SZ) (elems (data x)) = elems real_np
     \<and> drop (nat BATCH_SZ) (elems (data x)) = elems (data created)
     \<and> grad_fn x = No_grad (data x)
     \<and> shape (data y) = [2 * nat BATCH_SZ, 1]
     \<and> take (nat BATCH_SZ) (elems (data y)) = replicate (nat BATCH_SZ) 1
     \<and> drop (nat BATCH_SZ) (elems (data y)) = replicate (nat BATCH_SZ) 0
     \<and> grad_fn y = No_grad (data y)
     \<and> (\<exists>loss_1 s3. update_discriminator L ((zero_grad discriminator s)\<lparr>np_state := r2\<rparr>) x y
           = Inr (loss_1, s3))
     \<and> loop_body L (loss_D, loss_G, s) =
         then_do (update_discriminator L ((zero_grad discriminator s)\<lparr>np_state := r2\<rparr>) x y)
           (\<lambda>(loss_1, s3).
         then_do (generator_backward L (zero_grad discriminator s3) created) (\<lambda>(loss_2, s5).
         Inr (loss_D @ [Item_method loss_1], loss_G @ [Item_method loss_2],
              optimizer_gen_step s5)))"
proof -
  have "wf s" by (rule for_range_wf [OF assms(2,1,3)])
  from loop_body_batch [OF this assms(2), of loss_D loss_G]
  obtain noise_np r1 real_np r2 created x y where
    g: "generate_uniform L BATCH_SZ N (np_state s) = Inr (noise_np, r1)"
      "generate_gaussian L BATCH_SZ 1 r1 = Inr (real_np, r2)"
      "Generator_forward ((zero_grad discriminator s)\<lparr>np_state := r2\<rparr>) generator
           (torch_tensor noise_np) = Inr created"
    and l: "length (elems real_np) = nat BATCH_SZ" "length (elems (data created)) = nat BATCH_SZ"
    and x: "shape (data x) = [nat BATCH_SZ + nat BATCH_SZ, 1]"
      "elems (data x) = elems real_np @ elems (data created)" "grad_fn x = No_grad (data x)"
    and y: "shape (data y) = [nat BATCH_SZ + nat BATCH_SZ, 1]"
      "elems (data y) = replicate (nat BATCH_SZ) 1 @ replicate (nat BATCH_SZ) 0"
      "grad_fn y = No_grad (data y)"
    and ud: "\<exists>loss_1 s3. update_discriminator L ((zero_grad discriminator s)\<lparr>np_state := r2\<rparr>) x y
           = Inr (loss_1, s3)"
    and lb: "loop_body L (loss_D, loss_G, s) =
         then_do (update_discriminator L ((zero_grad discriminator s)\<lparr>np_state := r2\<rparr>) x y)
           (\<lambda>(loss_1, s3).
         then_do (generator_backward L (zero_grad discriminator s3) created) (\<lambda>(loss_2, s5).
         Inr (loss_D @ [Item_method loss_1], loss_G @ [Item_method loss_2],
              optimizer_gen_step s5)))"
    by blast
  have "take (nat BATCH_SZ) (elems (data x)) = elems real_np"
    "drop (nat BATCH_SZ) (elems (data x)) = elems (data created)"
    by (simp_all add: x(2) l(1))
  moreover have "take (nat BATCH_SZ) (elems (data y)) = replicate (nat BATCH_SZ) 1"
    "drop (nat BATCH_SZ) (elems (data y)) = replicate (nat BATCH_SZ) 0"
    by (simp_all add: y(2))
  moreover have "shape (data x) = [2 * nat BATCH_SZ, 1]" "shape (data y) = [2 * nat BATCH_SZ, 1]"
    by (simp_all add: x(1) y(1))
  ultimately show ?thesis using g l x(3) y(3) ud lb by blast
qed

theorem discriminator_batch_layout_witness:
  "wf world0 \<and> lib_ok lib0 \<and> for_range lib0 0 ([], [], world0) = Inr ([], [], world0) \<and>
   (\<exists>noise_np r1 real_np r2 created x y.
       generate_uniform lib0 BATCH_SZ N (np_state world0) = Inr (noise_np, r1)
     \<and> generate_gaussian lib0 BATCH_SZ 1 r1 = Inr (real_np, r2)
     \<and> Generator_forward ((zero_grad discriminator world0)\<lparr>np_state := r2\<rparr>) generator
           (torch_tensor noise_np) = Inr created
     \<and> length (elems real_np) = nat BATCH_SZ \<and> length (elems (data created)) = nat BATCH_SZ
     \<and> shape (data x) = [2 * nat BATCH_SZ, 1]
     \<and> take (nat BATCH_SZ) (elems (data x)) = elems real_np
     \<and> drop (nat BATCH_SZ) (elems (data x)) = elems (data created)
     \<and> grad_fn x = No_grad (data x)
     \<and> shape (data y) = [2 * nat BATCH_SZ, 1]
     \<and> take (nat BATCH_SZ) (elems (data y)) = replicate (nat BATCH_SZ) 1
     \<and> drop (nat BATCH_SZ) (elems (data y)) = replicate (nat BATCH_SZ) 0
     \<and> grad_fn y = No_grad (data y)
     \<and> (\<exists>loss_1 s3. update_discriminator lib0 ((zero_grad discriminator world0)\<lparr>np_state := r2\<rparr>) x y
           = Inr (loss_1, s3))
     \<and> loop_body lib0 ([], [], world0) =
         then_do (update_discriminator lib0 ((zero_grad discriminator world0)\<lparr>np_state := r2\<rparr>) x y)
           (\<lambda>(loss_1, s3).
         then_do (generator_backward lib0 (zero_grad discriminator s3) created) (\<lambda>(loss_2, s5).
         Inr ([] @ [Item_method loss_1], [] @ [Item_method loss_2],
              optimizer_gen_step s5))))"
  using discriminator_batch_layout [OF wf_world0 lib_ok_lib0, of 0 "[]" "[]" "[]" "[]" world0]
    wf_world0 lib_ok_lib0
  by simp

lemma evaluate_ok:
  assumes "0 \<le> sample_count" and "0 \<le> n_dim"
    and "linear_shape (params s) generator 1 (nat n_dim)"
  shows "\<exists>noise_np r out.
       np_random_rand L sample_count n_dim (np_state s) = Inr (noise_np, r)
     \<and> shape noise_np = [nat sample_count, nat n_dim]
     \<and> length (elems noise_np) = nat sample_count * nat n_dim
     \<and> Generator_forward (s\<lparr>grad_enabled := False, np_state := r\<rparr>) generator
           (torch_tensor noise_np) = Inr out
     \<and> grad_fn out = No_grad (data out)
     \<and> evaluate L sample_count n_dim s = Inr (detach out, s\<lparr>np_state := r\<rparr>)
     \<and> shape (data (detach out)) = [nat sample_count, 1]
     \<and> length (elems (data (detach out))) = nat sample_count
     \<and> grad_fn (detach out) = No_grad (data (detach out))"
proof -
  obtain a r where a: "np_random_rand L sample_count n_dim (np_state s) = Inr (a, r)"
    "shape a = [nat sample_count, nat n_dim]" "length (elems a) = nat sample_count * nat n_dim"
    using np_random_rand_ok [OF assms(1,2), where L = L and r = "np_state s"] by blast
  let ?s1 = "s\<lparr>grad_enabled := False, np_state := r\<rparr>"
  have ls: "linear_shape (params ?s1) generator 1 (nat n_dim)" using assms(3) by simp
  have sh: "shape (data (torch_tensor a)) = [nat sample_count, nat n_dim]"
    by (simp add: torch_tensor_def a(2))
  from Generator_forward_ok [OF ls sh]
  obtain out where o: "Generator_forward ?s1 generator (torch_tensor a) = Inr out"
    "shape (data out) = [nat sample_count, 1]" "length (elems (data out)) = nat sample_count"
    "grad_fn out = No_grad (data out)"
    by auto
  have "evaluate L sample_count n_dim s = Inr (detach out, s\<lparr>np_state := r\<rparr>)"
    using a(1) o(1) by (simp add: evaluate_def Let_def)
  moreover have "shape (data (detach out)) = [nat sample_count, 1]"
    "length (elems (data (detach out))) = nat sample_count"
    "grad_fn (detach out) = No_grad (data (detach out))"
    by (simp_all add: detach_def o(2,3))
  ultimately show ?thesis using a o(1,4) by blast
qed

text \<open>
  C9, as the specification states it, fails: for one sample the evaluation cell does
  not produce a vector of shape \<open>[1]\<close>; its result has the two-dimensional shape
  \<open>[1, 1]\<close>.
\<close>

theorem evaluate_not_flat:
  "map_sum id (\<lambda>(t, s'). shape (data t)) (evaluate lib0 1 N world0) = Inr [1, 1]
   \<and> map_sum id (\<lambda>(t, s'). shape (data t)) (evaluate lib0 1 N world0) \<noteq> Inr [1]"
proof -
  from wf_world0 have "linear_shape (params world0) generator 1 (nat N)" by (simp add: wf_alt)
  from evaluate_ok [OF _ N_nonneg this, of 1 lib0] show ?thesis by auto
qed

text \<open>
  C9, amended. For every sample count \<open>S \<ge> 0\<close> and every noise dimension
  \<open>n \<ge> 0\<close> the generator was built with, the evaluation cell draws \<open>S\<close> rows of
  \<open>n\<close> uniform numbers from numpy's generator, runs the generator on that batch
  with gradient mode off, where its output has no history, and yields that output
  detached: a tensor of shape \<open>[S, 1]\<close> (\<open>S\<close> rows of one column, not flattened)
  with exactly \<open>S\<close> elements and no history. The world it leaves is the one it found
  with only the state of numpy's generator advanced by the draw: parameters,
  gradients, optimizer state and gradient mode are as before.
\<close>

theorem evaluate_shape:
  assumes "0 \<le> sample_count" and "0 \<le> n_dim"
    and "linear_shape (params s) generator 1 (nat n_dim)"
  shows "\<exists>noise_np r out.
       np_random_rand L sample_count n_dim (np_state s) = Inr (noise_np, r)
     \<and> shape noise_np = [nat sample_count, nat n_dim]
     \<and> length (elems noise_np) = nat sample_count * nat n_dim
     \<and> Generator_forward (s\<lparr>grad_enabled := False, np_state := r\<rparr>) generator
           (torch_tensor noise_np) = Inr out
     \<and> grad_fn out = No_grad (data out)
     \<and> evaluate L sample_count n_dim s = Inr (detach out, s\<lparr>np_state := r\<rparr>)
     \<and> shape (data (detach out)) = [nat sample_count, 1]
     \<and> length (elems (data (detach out))) = nat sample_count
     \<and> grad_fn (detach out) = No_grad (data (detach out))
     \<and> params (s\<lparr>np_state := r\<rparr>) = params s \<and> grads (s\<lparr>np_state := r\<rparr>) = grads s
     \<and> adam_state (s\<lparr>np_state := r\<rparr>) = adam_state s
     \<and> grad_enabled (s\<lparr>np_state := r\<rparr>) = grad_enabled s"
  using evaluate_ok [OF assms, of L] by simp

theorem evaluate_shape_witness:
  "(0::int) \<le> 10000 \<and> (0::int) \<le> N \<and> linear_shape (params world0) generator 1 (nat N) \<and>
   (\<exists>noise_np r out.
       np_random_rand lib0 10000 N (np_state world0) = Inr (noise_np, r)
     \<and> shape noise_np = [10000, nat N]
     \<and> length (elems noise_np) = 10000 * nat N
     \<and> Generator_forward (world0\<lparr>grad_enabled := False, np_state := r\<rparr>) generator
           (torch_tensor noise_np) = Inr out
     \<and> grad_fn out = No_grad (data out)
     \<and> evaluate lib0 10000 N world0 = Inr (detach out, world0\<lparr>np_state := r\<rparr>)
     \<and> shape (data (detach out)) = [10000, 1]
     \<and> length (elems (data (detach out))) = 10000
     \<and> grad_fn (detach out) = No_grad (data (detach out))
     \<and> params (world0\<lparr>np_state := r\<rparr>) = params world0
     \<and> grads (world0\<lparr>np_state := r\<rparr>) = grads world0
     \<and> adam_state (world0\<lparr>np_state := r\<rparr>) = adam_state world0
     \<and> grad_enabled (world0\<lparr>np_state := r\<rparr>) = grad_enabled world0)"
proof -
  from wf_world0 have ls: "linear_shape (params world0) generator 1 (nat N)"
    by (simp add: wf_alt)
  from evaluate_shape [OF _ N_nonneg ls, of 10000 lib0] ls N_nonneg show ?thesis by simp
qed

text \<open>
  C10, as the specification states it, fails: with \<open>n_samples = 0\<close>, a non-positive
  argument, \<open>generate_gaussian\<close> raises nothing and returns the empty batch of shape
  \<open>[0, 1]\<close>.
\<close>

theorem generate_gaussian_zero_samples:
  "generate_gaussian lib0 0 1 0 = Inr (\<lparr>shape = [0, 1], elems = []\<rparr>, 0)"
  by (simp add: generate_gaussian_def np_random_randn_def)

text \<open>
  C10, amended. A sample generator called with a negative \<open>n_samples\<close> or \<open>n_dim\<close>
  fails with \<^verbatim>\<open>ValueError\<close>; called with arguments that are not negative, zero
  included, it raises no error and returns a batch of \<open>n_samples\<close> rows and \<open>n_dim\<close>
  columns.
\<close>

theorem sample_generators_errors:
  "(n_samples < 0 \<or> n_dim < 0 \<longrightarrow>
      generate_gaussian L n_samples n_dim r = Inl ValueError
      \<and> generate_uniform L n_samples n_dim r = Inl ValueError)
   \<and> (0 \<le> n_samples \<and> 0 \<le> n_dim \<longrightarrow>
      (\<exists>a r'. generate_gaussian L n_samples n_dim r = Inr (a, r')
         \<and> shape a = [nat n_samples, nat n_dim] \<and> valid a)
      \<and> (\<exists>a r'. generate_uniform L n_samples n_dim r = Inr (a, r')
         \<and> shape a = [nat n_samples, nat n_dim] \<and> valid a))"
proof (intro conjI impI)
  assume "n_samples < 0 \<or> n_dim < 0"
  then show "generate_gaussian L n_samples n_dim r = Inl ValueError"
    and "generate_uniform L n_samples n_dim r = Inl ValueError"
    by (simp_all add: generate_gaussian_def generate_uniform_def np_random_randn_def
        np_random_rand_def)
next
  assume a: "0 \<le> n_samples \<and> 0 \<le> n_dim"
  then have n: "0 \<le> n_samples" "0 \<le> n_dim" by simp_all
  from np_random_randn_ok [OF n, of L r]
  show "\<exists>a r'. generate_gaussian L n_samples n_dim r = Inr (a, r')
         \<and> shape a = [nat n_samples, nat n_dim] \<and> valid a"
    by (auto simp: generate_gaussian_def valid_def)
  from np_random_rand_ok [OF n, of L r]
  show "\<exists>a r'. generate_uniform L n_samples n_dim r = Inr (a, r')
         \<and> shape a = [nat n_samples, nat n_dim] \<and> valid a"
    by (auto simp: generate_uniform_def valid_def)
qed

theorem sample_generators_errors_witness:
  "((-1::int) < 0 \<or> (2::int) < 0)
   \<and> generate_gaussian lib0 (-1) 2 0 = Inl ValueError
   \<and> generate_uniform lib0 (-1) 2 0 = Inl ValueError
   \<and> (0::int) \<le> 2 \<and> (0::int) \<le> 3
   \<and> (\<exists>a r'. generate_gaussian lib0 2 3 0 = Inr (a, r') \<and> shape a = [2, 3] \<and> valid a)
   \<and> (\<exists>a r'. generate_uniform lib0 2 3 0 = Inr (a, r') \<and> shape a = [2, 3] \<and> valid a)"
  using sample_generators_errors [of "-1" 2 lib0 0] sample_generators_errors [of 2 3 lib0 0]
  by simp

section \<open>What the lists hold\<close>

text \<open>
  C1 fails on the code. After \<^verbatim>\<open>train(epochs=1)\<close> each of the two lists holds one
  entry, and it is not a float: it is the bound method \<^verbatim>\<open>item\<close> of the loss
  tensor, which the notebook appends without calling it. Calling it would give the
  number.
\<close>

theorem train_appends_bound_methods:
  "\<exists>loss_1 loss_2 s' v1 v2. train lib0 1 world0
       = Inr (([Item_method loss_1], [Item_method loss_2]), s')
     \<and> map is_float [Item_method loss_1] = [False]
     \<and> map is_float [Item_method loss_2] = [False]
     \<and> item loss_1 = Inr v1 \<and> item loss_2 = Inr v2"
proof -
  from forward_backward_ok [OF wf_world0 lib_ok_lib0]
  obtain loss_1 loss_2 s5 where f: "forward_backward lib0 world0 = Inr (loss_1, loss_2, s5)"
    "length (elems (data loss_1)) = 1" "length (elems (data loss_2)) = 1"
    by blast
  from f(2) obtain v1 where v1: "elems (data loss_1) = [v1]"
    by (cases "elems (data loss_1)") auto
  from f(3) obtain v2 where v2: "elems (data loss_2) = [v2]"
    by (cases "elems (data loss_2)") auto
  have "run_log lib0 (nat 1) world0 = Inr [(loss_1, loss_2, s5)]"
    by (simp add: f(1))
  from train_eq_run_log [OF this]
  obtain s' where "train lib0 1 world0 = Inr (([Item_method loss_1], [Item_method loss_2]), s')"
    by auto
  moreover have "item loss_1 = Inr v1" "item loss_2 = Inr v2"
    by (simp_all add: item_def v1 v2)
  ultimately show ?thesis by auto
qed

section \<open>Two iterations on a concrete world\<close>

lemma ones_like_bias:
  assumes "wf w"
  shows "ones_like (params w Gen_fc_bias) = \<lparr>shape = [1], elems = [1]\<rparr>"
proof -
  from assms have "shape (params w Gen_fc_bias) = [1]" "length (elems (params w Gen_fc_bias)) = 1"
    by (simp_all add: wf_alt linear_shape_def generator_def valid_def)
  then show ?thesis
    by (cases "elems (params w Gen_fc_bias)") (simp_all add: ones_like_def)
qed

text \<open>
  C2 fails on the code from the second iteration on. With a library whose derivative
  of every loss is \<open>1\<close> in each component, \<^verbatim>\<open>train(epochs=2)\<close> from a fresh world
  with generator bias \<open>0\<close>: the derivative of the generator loss is \<open>1\<close> in both
  iterations, but the gradient the second \<^verbatim>\<open>optimizer_gen.step()\<close> applies is
  \<open>2\<close>, and the bias ends at \<open>-0.03\<close>, not at \<open>-0.02\<close>.
\<close>

theorem second_generator_step_applies_both_gradients:
  "\<exists>hist s'. run_log lib0 2 world0 = Inr hist
     \<and> train lib0 2 world0 = Inr ((map (\<lambda>e. Item_method (fst e)) hist,
                                    map (\<lambda>e. Item_method (fst (snd e))) hist), s')
     \<and> params world0 Gen_fc_bias = \<lparr>shape = [1], elems = [0]\<rparr>
     \<and> loss_G_gradient lib0 Gen_fc_bias (hist ! 0) = \<lparr>shape = [1], elems = [1]\<rparr>
     \<and> loss_G_gradient lib0 Gen_fc_bias (hist ! 1) = \<lparr>shape = [1], elems = [1]\<rparr>
     \<and> stored_gradient Gen_fc_bias (hist ! 1) = Some \<lparr>shape = [1], elems = [2]\<rparr>
     \<and> params s' Gen_fc_bias = \<lparr>shape = [1], elems = [- 0.03]\<rparr>"
proof -
  have ag: "autograd lib0 g P p = ones_like (P p)" for g P p
    by (simp add: lib0_def)
  have p0: "params world0 Gen_fc_bias = \<lparr>shape = [1], elems = [0]\<rparr>"
    and g0: "grads world0 Gen_fc_bias = None"
    by (simp_all add: world0_def params0_def)
  have gb: "Gen_fc_bias \<in> set (parameters generator)" by simp
  from forward_backward_ok [OF wf_world0 lib_ok_lib0] gb
  obtain a0 b0 w0 where f0: "forward_backward lib0 world0 = Inr (a0, b0, w0)" and w0: "wf w0"
    and pw0: "params w0 Gen_fc_bias = params world0 Gen_fc_bias"
    and gw0: "grads w0 Gen_fc_bias = accumulate (grads world0 Gen_fc_bias)
                (autograd lib0 (grad_fn b0) (params w0) Gen_fc_bias)"
    by blast
  from gw0 have gw0': "grads w0 Gen_fc_bias = Some \<lparr>shape = [1], elems = [1]\<rparr>"
    by (simp add: g0 ag ones_like_bias [OF w0] accumulate_def)
  let ?s1 = "optimizer_gen_step w0"
  have w1s: "wf ?s1" by (rule wf_optimizer_gen_step [OF w0])
  have ps1: "params ?s1 Gen_fc_bias = \<lparr>shape = [1], elems = [- 0.01]\<rparr>"
    by (simp add: optimizer_gen_step_params [OF gb gw0'] pw0 p0 add_scaled_def)
  from forward_backward_ok [OF w1s lib_ok_lib0] gb
  obtain a1 b1 w1 where f1: "forward_backward lib0 ?s1 = Inr (a1, b1, w1)" and w1: "wf w1"
    and pw1: "params w1 Gen_fc_bias = params ?s1 Gen_fc_bias"
    and gw1: "grads w1 Gen_fc_bias = accumulate (grads ?s1 Gen_fc_bias)
                (autograd lib0 (grad_fn b1) (params w1) Gen_fc_bias)"
    by blast
  from gw1 have gw1': "grads w1 Gen_fc_bias = Some \<lparr>shape = [1], elems = [2]\<rparr>"
    by (simp add: gw0' ag ones_like_bias [OF w1] accumulate_def nd_add_def)
  let ?s' = "optimizer_gen_step w1"
  let ?hist = "[(a0, b0, w0), (a1, b1, w1)]"
  have ps': "params ?s' Gen_fc_bias = \<lparr>shape = [1], elems = [- 0.03]\<rparr>"
    by (simp add: optimizer_gen_step_params [OF gb gw1'] pw1 ps1 add_scaled_def)
  have r: "run_log lib0 2 world0 = Inr ?hist"
    by (simp add: numeral_2_eq_2 f0 f1)
  have t: "train lib0 2 world0 = Inr ((map (\<lambda>e. Item_method (fst e)) ?hist,
                                    map (\<lambda>e. Item_method (fst (snd e))) ?hist), ?s')"
    by (simp add: train_def numeral_2_eq_2 loop_body_eq f0 f1)
  have l0: "loss_G_gradient lib0 Gen_fc_bias (?hist ! 0) = \<lparr>shape = [1], elems = [1]\<rparr>"
    by (simp add: loss_G_gradient_def ag ones_like_bias [OF w0])
  have l1: "loss_G_gradient lib0 Gen_fc_bias (?hist ! 1) = \<lparr>shape = [1], elems = [1]\<rparr>"
    by (simp add: loss_G_gradient_def ag ones_like_bias [OF w1])
  have st: "stored_gradient Gen_fc_bias (?hist ! 1) = Some \<lparr>shape = [1], elems = [2]\<rparr>"
    by (simp add: stored_gradient_def gw1')
  from r t p0 l0 l1 st ps' show ?thesis by blast
qed

section \<open>Lemmas: the stored gradient, element by element\<close>





section \<open>What the generator step applies\<close>






end
